theory Spec2Isabelle
  imports Main "HOL-Library.Word" "HOL-Library.Signed_Division" "HOL-Library.Multiset"
    "HOL-Library.Product_Lexorder"
begin

text \<open>
  NodeStat queries a batch scheduler (SLURM, Torque or a mock) for the nodes and jobs of
  a partition, ranks the nodes, sums them up into cluster statistics and shows the result
  in a terminal, refreshing on a timer or on a key. This theory embeds its data model
  (package \<^verbatim>\<open>models\<close>), the parsers of the SLURM and Torque adapters (package
  \<^verbatim>\<open>scheduler\<close>) and the ranking, the statistics and the refresh cycle (package
  \<^verbatim>\<open>ui\<close>), and proves what they do. Definitions carry the names of the source.
\<close>

section \<open>Machine integers\<close>

text \<open>
  Go's \<^verbatim>\<open>int\<close> on every platform the build script targets (amd64, arm64) is a 64-bit
  two's-complement integer: \<open>+\<close>, \<open>-\<close> and \<open>*\<close> wrap around, comparisons are signed, and
  \<open>/\<close> truncates towards zero. The only divisor the program uses is the constant 1000,
  so the panic of a division by zero has no branch here.
\<close>

type_synonym go_int = "64 word"

definition go_quo :: "go_int \<Rightarrow> go_int \<Rightarrow> go_int" where
  "go_quo a b = word_of_int (sint a sdiv sint b)"

section \<open>The data model (package models)\<close>

text \<open>
  \<^verbatim>\<open>type NodeState string\<close> with six named constants. The type is a string, and a
  \<^verbatim>\<open>models.Node{}\<close> that no parser has given a state carries the empty string, so the
  model keeps the string.
\<close>

type_synonym NodeState = string

definition StateIdle :: NodeState where "StateIdle = ''Idle''"
definition StateRunning :: NodeState where "StateRunning = ''Running''"
definition StateDown :: NodeState where "StateDown = ''Down''"
definition StateOffline :: NodeState where "StateOffline = ''Offline''"
definition StateBusy :: NodeState where "StateBusy = ''Busy''"
definition StateDrained :: NodeState where "StateDrained = ''Drained''"

record Node =
  ID :: string
  State :: NodeState
  TotalCores :: go_int
  UsedCores :: go_int
  TotalMemMB :: go_int
  UsedMemMB :: go_int
  Partitions :: "string list"
  Jobs :: "string list"

text \<open>The zero value \<^verbatim>\<open>models.Node{}\<close>.\<close>

definition Node_zero :: Node where
  "Node_zero = \<lparr>ID = [], State = [], TotalCores = 0, UsedCores = 0, TotalMemMB = 0,
     UsedMemMB = 0, Partitions = [], Jobs = []\<rparr>"

definition GetAvailCores :: "Node \<Rightarrow> go_int" where
  "GetAvailCores n = Node.TotalCores n - Node.UsedCores n"

definition GetAvailMemGB :: "Node \<Rightarrow> go_int" where
  "GetAvailMemGB n = go_quo (Node.TotalMemMB n - Node.UsedMemMB n) 1000"

definition GetTotalMemGB :: "Node \<Rightarrow> go_int" where
  "GetTotalMemGB n = go_quo (Node.TotalMemMB n) 1000"

definition GetUsedMemGB :: "Node \<Rightarrow> go_int" where
  "GetUsedMemGB n = go_quo (Node.UsedMemMB n) 1000"

definition IsAvailable :: "Node \<Rightarrow> bool" where
  "IsAvailable n \<longleftrightarrow>
     (Node.State n = StateIdle \<or> Node.State n = StateRunning) \<and>
     0 <s GetAvailCores n \<and> 0 <s GetAvailMemGB n"

type_synonym JobState = string

definition JobRunning :: JobState where "JobRunning = ''R''"

text \<open>
  \<^verbatim>\<open>models.Job\<close>. The three durations are \<^verbatim>\<open>time.Duration\<close> values (64-bit counts of
  nanoseconds). \<^verbatim>\<open>SubmitTime\<close> is written by no code of the repository and is left out.
\<close>

record Job =
  ID :: string
  User :: string
  Name :: string
  State :: JobState
  NodeList :: "string list"
  Partition :: string
  ReqNodes :: go_int
  ReqCPUs :: go_int
  ReqMemMB :: go_int
  TimeLimit :: go_int
  Elapsed :: go_int
  CPUTime :: go_int

definition Job_zero :: Job where
  "Job_zero = \<lparr>ID = [], User = [], Name = [], State = [], NodeList = [], Partition = [],
     ReqNodes = 0, ReqCPUs = 0, ReqMemMB = 0, TimeLimit = 0, Elapsed = 0, CPUTime = 0\<rparr>"

record ClusterStats =
  TotalNodes :: go_int
  AvailNodes :: go_int
  TotalCores :: go_int
  UsedCores :: go_int
  AvailCores :: go_int
  TotalMemoryGB :: go_int
  UsedMemoryGB :: go_int
  AvailMemoryGB :: go_int

definition ClusterStats_zero :: ClusterStats where
  "ClusterStats_zero = \<lparr>TotalNodes = 0, AvailNodes = 0, TotalCores = 0, UsedCores = 0,
     AvailCores = 0, TotalMemoryGB = 0, UsedMemoryGB = 0, AvailMemoryGB = 0\<rparr>"

section \<open>Aggregation (package ui)\<close>

text \<open>The body of the \<^verbatim>\<open>for _, node := range nodes\<close> loop of \<^verbatim>\<open>calculateStats\<close>.\<close>

definition calculateStats_step :: "ClusterStats \<Rightarrow> Node \<Rightarrow> ClusterStats" where
  "calculateStats_step stats node =
     (let stats = stats\<lparr>TotalNodes := TotalNodes stats + 1\<rparr>;
          stats = stats\<lparr>ClusterStats.TotalCores :=
                    ClusterStats.TotalCores stats + Node.TotalCores node\<rparr>;
          stats = stats\<lparr>ClusterStats.UsedCores :=
                    ClusterStats.UsedCores stats + Node.UsedCores node\<rparr>;
          stats = stats\<lparr>TotalMemoryGB := TotalMemoryGB stats + GetTotalMemGB node\<rparr>;
          stats = stats\<lparr>UsedMemoryGB := UsedMemoryGB stats + GetUsedMemGB node\<rparr>
      in if IsAvailable node then stats\<lparr>AvailNodes := AvailNodes stats + 1\<rparr> else stats)"

definition calculateStats :: "Node list \<Rightarrow> ClusterStats" where
  "calculateStats nodes =
     (let stats = foldl calculateStats_step ClusterStats_zero nodes;
          stats = stats\<lparr>AvailCores :=
                    ClusterStats.TotalCores stats - ClusterStats.UsedCores stats\<rparr>
      in stats\<lparr>AvailMemoryGB := TotalMemoryGB stats - UsedMemoryGB stats\<rparr>)"

text \<open>
  The comparator handed to \<^verbatim>\<open>sort.Slice\<close> in \<^verbatim>\<open>fetchData\<close>. \<^verbatim>\<open>stateOrder\<close> is a Go map
  with five keys; indexing a Go map with a key it does not hold yields the zero value of
  the element type, here 0.
\<close>

definition stateOrder :: "NodeState \<rightharpoonup> go_int" where
  "stateOrder = map_of [(StateRunning, 0), (StateBusy, 1), (StateDrained, 2),
     (StateDown, 3), (StateOffline, 4)]"

definition stateOrder_index :: "NodeState \<Rightarrow> go_int" where
  "stateOrder_index s = (case stateOrder s of None \<Rightarrow> 0 | Some v \<Rightarrow> v)"

definition powerScore :: "Node \<Rightarrow> go_int" where
  "powerScore n = GetAvailCores n * 1000 + GetAvailMemGB n"

definition nodeLess :: "Node \<Rightarrow> Node \<Rightarrow> bool" where
  "nodeLess ni nj =
     (if IsAvailable ni \<noteq> IsAvailable nj then IsAvailable ni
      else if IsAvailable ni \<and> IsAvailable nj then powerScore nj <s powerScore ni
      else stateOrder_index (Node.State ni) <s stateOrder_index (Node.State nj))"

text \<open>
  \<^verbatim>\<open>sort.Slice(nodes, less)\<close> is the Go library's, not the repository's. What it
  promises, for a comparator that is a strict weak ordering, is its result: the same
  elements, in an order in which no element is less than one before it. The library
  documents that the sort is not stable, so which of several such orders comes out is
  left open by the documentation; this relation between the slice before and after the
  call is what holds of every release of the library. The code of the sort itself follows
  in the next section.
\<close>

definition sort_Slice_result :: "('a \<Rightarrow> 'a \<Rightarrow> bool) \<Rightarrow> 'a list \<Rightarrow> 'a list \<Rightarrow> bool" where
  "sort_Slice_result lt xs ys \<longleftrightarrow>
     mset ys = mset xs \<and> sorted_wrt (\<lambda>a b. \<not> lt b a) ys"

text \<open>The node ranking of \<^verbatim>\<open>fetchData\<close>: \<open>ys\<close> is the slice after the sort of \<open>ns\<close>.\<close>

definition ranked :: "Node list \<Rightarrow> Node list \<Rightarrow> bool" where
  "ranked ns ys = sort_Slice_result nodeLess ns ys"

text \<open>Two nodes tie when the comparator puts neither before the other.\<close>

definition ties :: "Node \<Rightarrow> Node \<Rightarrow> bool" where
  "ties a b \<longleftrightarrow> \<not> nodeLess a b \<and> \<not> nodeLess b a"

text \<open>
  The comparator compares nodes through this key, pairs ordered lexicographically
  (lemma \<open>nodeLess_rankKey\<close>); it is used in proofs only.
\<close>

definition rankKey :: "Node \<Rightarrow> int \<times> int" where
  "rankKey n = (if IsAvailable n then (0, - sint (powerScore n))
                else (1, sint (stateOrder_index (Node.State n))))"

section \<open>The library sort (package sort)\<close>

text \<open>
  The code of \<^verbatim>\<open>sort.Slice\<close>, from the library's \<^verbatim>\<open>sort/slice.go\<close> and
  \<^verbatim>\<open>sort/zsortfunc.go\<close> (Go 1.19 and later, a pattern-defeating quicksort). The sort
  reaches the slice through two functions only, \<^verbatim>\<open>data.Less(i, j)\<close>, which is the
  comparator of the caller on the elements at \<open>i\<close> and \<open>j\<close>, and \<^verbatim>\<open>data.Swap(i, j)\<close>;
  both panic on an index outside the slice. Indices are Go \<^verbatim>\<open>int\<close>s; the sort adds
  to them and subtracts from them numbers no greater than the length of the slice, far
  from the 64-bit bounds, so they are modelled as unbounded integers (\<open>sdiv\<close> is
  the division of Go, which truncates). A function that changes the slice returns the new
  slice.

  Two branches of \<^verbatim>\<open>pdqsort_func\<close> are outside the model: \<^verbatim>\<open>breakPatterns_func\<close>,
  which exchanges elements chosen by a pseudo-random generator whose constants differ
  between releases of the library, and \<^verbatim>\<open>heapSort_func\<close>, which is reached only after
  \<^verbatim>\<open>breakPatterns_func\<close> has run. The sort enters \<^verbatim>\<open>breakPatterns_func\<close> after a
  partition that left fewer than an eighth of the elements on one side.
\<close>

datatype halt = IndexOutOfRange | OutsideModel

datatype sortedHint = unknownHint | increasingHint | decreasingHint

definition Less :: "('a \<Rightarrow> 'a \<Rightarrow> bool) \<Rightarrow> 'a list \<Rightarrow> int \<Rightarrow> int \<Rightarrow> halt + bool" where
  "Less lt data i j =
     (if 0 \<le> i \<and> i < int (length data) \<and> 0 \<le> j \<and> j < int (length data)
      then Inr (lt (data ! nat i) (data ! nat j))
      else Inl IndexOutOfRange)"

definition Swap :: "'a list \<Rightarrow> int \<Rightarrow> int \<Rightarrow> halt + 'a list" where
  "Swap data i j =
     (if 0 \<le> i \<and> i < int (length data) \<and> 0 \<le> j \<and> j < int (length data)
      then Inr (data[nat i := data ! nat j, nat j := data ! nat i])
      else Inl IndexOutOfRange)"

text \<open>
  \<^verbatim>\<open>insertionSort_func(data, a, b)\<close>: the inner loop with its counter \<open>j\<close>, the outer
  loop with its counter \<open>i\<close>.
\<close>

function insertionSort_inner ::
  "('a \<Rightarrow> 'a \<Rightarrow> bool) \<Rightarrow> 'a list \<Rightarrow> int \<Rightarrow> int \<Rightarrow> halt + 'a list" where
  "insertionSort_inner lt data a j =
     (if j > a then
        (case Less lt data j (j - 1) of
           Inl h \<Rightarrow> Inl h
         | Inr c \<Rightarrow>
             if c then
               (case Swap data j (j - 1) of
                  Inl h \<Rightarrow> Inl h
                | Inr data \<Rightarrow> insertionSort_inner lt data a (j - 1))
             else Inr data)
      else Inr data)"
  by pat_completeness auto
termination
  by (relation "measure (\<lambda>(lt, data, a, j). nat (j - a))") auto

declare insertionSort_inner.simps [simp del]

function insertionSort_outer ::
  "('a \<Rightarrow> 'a \<Rightarrow> bool) \<Rightarrow> 'a list \<Rightarrow> int \<Rightarrow> int \<Rightarrow> int \<Rightarrow> halt + 'a list" where
  "insertionSort_outer lt data a b i =
     (if i < b then
        (case insertionSort_inner lt data a i of
           Inl h \<Rightarrow> Inl h
         | Inr data \<Rightarrow> insertionSort_outer lt data a b (i + 1))
      else Inr data)"
  by pat_completeness auto
termination
  by (relation "measure (\<lambda>(lt, data, a, b, i). nat (b - i))") auto

declare insertionSort_outer.simps [simp del]

definition insertionSort_func ::
  "('a \<Rightarrow> 'a \<Rightarrow> bool) \<Rightarrow> 'a list \<Rightarrow> int \<Rightarrow> int \<Rightarrow> halt + 'a list" where
  "insertionSort_func lt data a b = insertionSort_outer lt data a b (a + 1)"

text \<open>
  \<^verbatim>\<open>choosePivot_func\<close> with \<^verbatim>\<open>order2_func\<close>, \<^verbatim>\<open>median_func\<close> and
  \<^verbatim>\<open>medianAdjacent_func\<close>; the counter \<^verbatim>\<open>*swaps\<close> is passed on and returned.
\<close>

definition order2_func ::
  "('a \<Rightarrow> 'a \<Rightarrow> bool) \<Rightarrow> 'a list \<Rightarrow> int \<Rightarrow> int \<Rightarrow> int \<Rightarrow> halt + int \<times> int \<times> int" where
  "order2_func lt data a b swaps =
     (case Less lt data b a of
        Inl h \<Rightarrow> Inl h
      | Inr c \<Rightarrow> if c then Inr (b, a, swaps + 1) else Inr (a, b, swaps))"

definition median_func ::
  "('a \<Rightarrow> 'a \<Rightarrow> bool) \<Rightarrow> 'a list \<Rightarrow> int \<Rightarrow> int \<Rightarrow> int \<Rightarrow> int \<Rightarrow> halt + int \<times> int" where
  "median_func lt data a b c swaps =
     (case order2_func lt data a b swaps of
        Inl h \<Rightarrow> Inl h
      | Inr (a, b, swaps) \<Rightarrow>
          (case order2_func lt data b c swaps of
             Inl h \<Rightarrow> Inl h
           | Inr (b, c, swaps) \<Rightarrow>
               (case order2_func lt data a b swaps of
                  Inl h \<Rightarrow> Inl h
                | Inr (a, b, swaps) \<Rightarrow> Inr (b, swaps))))"

definition medianAdjacent_func ::
  "('a \<Rightarrow> 'a \<Rightarrow> bool) \<Rightarrow> 'a list \<Rightarrow> int \<Rightarrow> int \<Rightarrow> halt + int \<times> int" where
  "medianAdjacent_func lt data a swaps = median_func lt data (a - 1) a (a + 1) swaps"

definition choosePivot_func ::
  "('a \<Rightarrow> 'a \<Rightarrow> bool) \<Rightarrow> 'a list \<Rightarrow> int \<Rightarrow> int \<Rightarrow> halt + int \<times> sortedHint" where
  "choosePivot_func lt data a b =
     (let l = b - a;
          i = a + l sdiv 4 * 1;
          j = a + l sdiv 4 * 2;
          k = a + l sdiv 4 * 3
      in case (if l \<ge> 8 then
                 (case (if l \<ge> 50 then
                          (case medianAdjacent_func lt data i 0 of
                             Inl h \<Rightarrow> Inl h
                           | Inr (i, swaps) \<Rightarrow>
                               (case medianAdjacent_func lt data j swaps of
                                  Inl h \<Rightarrow> Inl h
                                | Inr (j, swaps) \<Rightarrow>
                                    (case medianAdjacent_func lt data k swaps of
                                       Inl h \<Rightarrow> Inl h
                                     | Inr (k, swaps) \<Rightarrow> Inr (i, j, k, swaps))))
                        else Inr (i, j, k, 0)) of
                    Inl h \<Rightarrow> Inl h
                  | Inr (i, j, k, swaps) \<Rightarrow> median_func lt data i j k swaps)
               else Inr (j, 0)) of
           Inl h \<Rightarrow> Inl h
         | Inr (j, swaps) \<Rightarrow>
             Inr (if swaps = 0 then (j, increasingHint)
                  else if swaps = 4 * 3 then (j, decreasingHint)
                  else (j, unknownHint)))"

text \<open>\<^verbatim>\<open>reverseRange_func(data, a, b)\<close>.\<close>

function reverseRange_loop :: "'a list \<Rightarrow> int \<Rightarrow> int \<Rightarrow> halt + 'a list" where
  "reverseRange_loop data i j =
     (if i < j then
        (case Swap data i j of
           Inl h \<Rightarrow> Inl h
         | Inr data \<Rightarrow> reverseRange_loop data (i + 1) (j - 1))
      else Inr data)"
  by pat_completeness auto
termination
  by (relation "measure (\<lambda>(data, i, j). nat (j - i))") auto

declare reverseRange_loop.simps [simp del]

definition reverseRange_func :: "'a list \<Rightarrow> int \<Rightarrow> int \<Rightarrow> halt + 'a list" where
  "reverseRange_func data a b = reverseRange_loop data a (b - 1)"

text \<open>
  \<^verbatim>\<open>partialInsertionSort_func(data, a, b)\<close>: the loop that advances \<open>i\<close> over
  neighbours in order, the two loops that shift an element to the left and to the right,
  and the outer loop with its counter \<open>j\<close> (\<^verbatim>\<open>maxSteps\<close> is 5, \<^verbatim>\<open>shortestShifting\<close>
  is 50). The result holds the slice and the returned flag.
\<close>

function partialInsertionSort_scan ::
  "('a \<Rightarrow> 'a \<Rightarrow> bool) \<Rightarrow> 'a list \<Rightarrow> int \<Rightarrow> int \<Rightarrow> halt + int" where
  "partialInsertionSort_scan lt data b i =
     (if i < b then
        (case Less lt data i (i - 1) of
           Inl h \<Rightarrow> Inl h
         | Inr c \<Rightarrow> if \<not> c then partialInsertionSort_scan lt data b (i + 1) else Inr i)
      else Inr i)"
  by pat_completeness auto
termination
  by (relation "measure (\<lambda>(lt, data, b, i). nat (b - i))") auto

declare partialInsertionSort_scan.simps [simp del]

function partialInsertionSort_left ::
  "('a \<Rightarrow> 'a \<Rightarrow> bool) \<Rightarrow> 'a list \<Rightarrow> int \<Rightarrow> halt + 'a list" where
  "partialInsertionSort_left lt data j =
     (if j \<ge> 1 then
        (case Less lt data j (j - 1) of
           Inl h \<Rightarrow> Inl h
         | Inr c \<Rightarrow>
             if \<not> c then Inr data
             else (case Swap data j (j - 1) of
                     Inl h \<Rightarrow> Inl h
                   | Inr data \<Rightarrow> partialInsertionSort_left lt data (j - 1)))
      else Inr data)"
  by pat_completeness auto
termination
  by (relation "measure (\<lambda>(lt, data, j). nat j)") auto

declare partialInsertionSort_left.simps [simp del]

function partialInsertionSort_right ::
  "('a \<Rightarrow> 'a \<Rightarrow> bool) \<Rightarrow> 'a list \<Rightarrow> int \<Rightarrow> int \<Rightarrow> halt + 'a list" where
  "partialInsertionSort_right lt data b j =
     (if j < b then
        (case Less lt data j (j - 1) of
           Inl h \<Rightarrow> Inl h
         | Inr c \<Rightarrow>
             if \<not> c then Inr data
             else (case Swap data j (j - 1) of
                     Inl h \<Rightarrow> Inl h
                   | Inr data \<Rightarrow> partialInsertionSort_right lt data b (j + 1)))
      else Inr data)"
  by pat_completeness auto
termination
  by (relation "measure (\<lambda>(lt, data, b, j). nat (b - j))") auto

declare partialInsertionSort_right.simps [simp del]

function partialInsertionSort_loop ::
  "('a \<Rightarrow> 'a \<Rightarrow> bool) \<Rightarrow> 'a list \<Rightarrow> int \<Rightarrow> int \<Rightarrow> int \<Rightarrow> int \<Rightarrow> halt + 'a list \<times> bool" where
  "partialInsertionSort_loop lt data a b i j =
     (if j < 5 then
        (case partialInsertionSort_scan lt data b i of
           Inl h \<Rightarrow> Inl h
         | Inr i \<Rightarrow>
             if i = b then Inr (data, True)
             else if b - a < 50 then Inr (data, False)
             else
               (case Swap data i (i - 1) of
                  Inl h \<Rightarrow> Inl h
                | Inr data \<Rightarrow>
                    (case (if i - a \<ge> 2 then partialInsertionSort_left lt data (i - 1)
                           else Inr data) of
                       Inl h \<Rightarrow> Inl h
                     | Inr data \<Rightarrow>
                         (case (if b - i \<ge> 2 then partialInsertionSort_right lt data b (i + 1)
                                else Inr data) of
                            Inl h \<Rightarrow> Inl h
                          | Inr data \<Rightarrow> partialInsertionSort_loop lt data a b i (j + 1)))))
      else Inr (data, False))"
  by pat_completeness auto
termination
  by (relation "measure (\<lambda>(lt, data, a, b, i, j). nat (5 - j))") auto

declare partialInsertionSort_loop.simps [simp del]

definition partialInsertionSort_func ::
  "('a \<Rightarrow> 'a \<Rightarrow> bool) \<Rightarrow> 'a list \<Rightarrow> int \<Rightarrow> int \<Rightarrow> halt + 'a list \<times> bool" where
  "partialInsertionSort_func lt data a b = partialInsertionSort_loop lt data a b (a + 1) 0"

text \<open>
  \<^verbatim>\<open>partition_func(data, a, b, pivot)\<close>: the loops
  \<^verbatim>\<open>for i <= j && data.Less(i, a) { i++ }\<close> and
  \<^verbatim>\<open>for i <= j && !data.Less(j, a) { j-- }\<close>, the \<^verbatim>\<open>for { ... }\<close> loop around them,
  which returns the slice with \<open>i\<close> and \<open>j\<close>, and the function, which returns the slice,
  the new pivot index and \<^verbatim>\<open>alreadyPartitioned\<close>.
\<close>

function partition_up ::
  "('a \<Rightarrow> 'a \<Rightarrow> bool) \<Rightarrow> 'a list \<Rightarrow> int \<Rightarrow> int \<Rightarrow> int \<Rightarrow> halt + int" where
  "partition_up lt data a i j =
     (if i \<le> j then
        (case Less lt data i a of
           Inl h \<Rightarrow> Inl h
         | Inr c \<Rightarrow> if c then partition_up lt data a (i + 1) j else Inr i)
      else Inr i)"
  by pat_completeness auto
termination
  by (relation "measure (\<lambda>(lt, data, a, i, j). nat (j + 1 - i))") auto

declare partition_up.simps [simp del]

function partition_down ::
  "('a \<Rightarrow> 'a \<Rightarrow> bool) \<Rightarrow> 'a list \<Rightarrow> int \<Rightarrow> int \<Rightarrow> int \<Rightarrow> halt + int" where
  "partition_down lt data a i j =
     (if i \<le> j then
        (case Less lt data j a of
           Inl h \<Rightarrow> Inl h
         | Inr c \<Rightarrow> if \<not> c then partition_down lt data a i (j - 1) else Inr j)
      else Inr j)"
  by pat_completeness auto
termination
  by (relation "measure (\<lambda>(lt, data, a, i, j). nat (j + 1 - i))") auto

declare partition_down.simps [simp del]

function partition_loop ::
  "('a \<Rightarrow> 'a \<Rightarrow> bool) \<Rightarrow> 'a list \<Rightarrow> int \<Rightarrow> int \<Rightarrow> int \<Rightarrow> halt + 'a list \<times> int \<times> int" where
  "partition_loop lt data a i j =
     (case partition_up lt data a i j of
        Inl h \<Rightarrow> Inl h
      | Inr i \<Rightarrow>
          (case partition_down lt data a i j of
             Inl h \<Rightarrow> Inl h
           | Inr j \<Rightarrow>
               if i > j then Inr (data, i, j)
               else
                 (case Swap data i j of
                    Inl h \<Rightarrow> Inl h
                  | Inr data \<Rightarrow> partition_loop lt data a (i + 1) (j - 1))))"
  by pat_completeness auto
termination
proof -
  have up: "i \<le> i'" if "partition_up lt data a i j = Inr i'"
    for lt :: "'a \<Rightarrow> 'a \<Rightarrow> bool" and data a i j i'
    using that
  proof (induction lt data a i j rule: partition_up.induct)
    case (1 lt data a i j)
    show ?case
      using "1.prems" "1.IH"
      by (subst (asm) partition_up.simps) (fastforce split: if_splits sum.splits)
  qed
  have down: "j' \<le> j" if "partition_down lt data a i j = Inr j'"
    for lt :: "'a \<Rightarrow> 'a \<Rightarrow> bool" and data a i j j'
    using that
  proof (induction lt data a i j rule: partition_down.induct)
    case (1 lt data a i j)
    show ?case
      using "1.prems" "1.IH"
      by (subst (asm) partition_down.simps) (fastforce split: if_splits sum.splits)
  qed
  show ?thesis
    by (relation "measure (\<lambda>(lt, data, a, i, j). nat (j + 1 - i))")
       (auto dest!: up down)
qed

declare partition_loop.simps [simp del]

definition partition_func ::
  "('a \<Rightarrow> 'a \<Rightarrow> bool) \<Rightarrow> 'a list \<Rightarrow> int \<Rightarrow> int \<Rightarrow> int \<Rightarrow> halt + 'a list \<times> int \<times> bool" where
  "partition_func lt data a b pivot =
     (case Swap data a pivot of
        Inl h \<Rightarrow> Inl h
      | Inr data \<Rightarrow>
          (case partition_up lt data a (a + 1) (b - 1) of
             Inl h \<Rightarrow> Inl h
           | Inr i \<Rightarrow>
               (case partition_down lt data a i (b - 1) of
                  Inl h \<Rightarrow> Inl h
                | Inr j \<Rightarrow>
                    if i > j then
                      (case Swap data j a of
                         Inl h \<Rightarrow> Inl h
                       | Inr data \<Rightarrow> Inr (data, j, True))
                    else
                      (case Swap data i j of
                         Inl h \<Rightarrow> Inl h
                       | Inr data \<Rightarrow>
                           (case partition_loop lt data a (i + 1) (j - 1) of
                              Inl h \<Rightarrow> Inl h
                            | Inr (data, i, j) \<Rightarrow>
                                (case Swap data j a of
                                   Inl h \<Rightarrow> Inl h
                                 | Inr data \<Rightarrow> Inr (data, j, False)))))))"

text \<open>
  \<^verbatim>\<open>partitionEqual_func(data, a, b, pivot)\<close>, in the same way.
\<close>

function partitionEqual_up ::
  "('a \<Rightarrow> 'a \<Rightarrow> bool) \<Rightarrow> 'a list \<Rightarrow> int \<Rightarrow> int \<Rightarrow> int \<Rightarrow> halt + int" where
  "partitionEqual_up lt data a i j =
     (if i \<le> j then
        (case Less lt data a i of
           Inl h \<Rightarrow> Inl h
         | Inr c \<Rightarrow> if \<not> c then partitionEqual_up lt data a (i + 1) j else Inr i)
      else Inr i)"
  by pat_completeness auto
termination
  by (relation "measure (\<lambda>(lt, data, a, i, j). nat (j + 1 - i))") auto

declare partitionEqual_up.simps [simp del]

function partitionEqual_down ::
  "('a \<Rightarrow> 'a \<Rightarrow> bool) \<Rightarrow> 'a list \<Rightarrow> int \<Rightarrow> int \<Rightarrow> int \<Rightarrow> halt + int" where
  "partitionEqual_down lt data a i j =
     (if i \<le> j then
        (case Less lt data a j of
           Inl h \<Rightarrow> Inl h
         | Inr c \<Rightarrow> if c then partitionEqual_down lt data a i (j - 1) else Inr j)
      else Inr j)"
  by pat_completeness auto
termination
  by (relation "measure (\<lambda>(lt, data, a, i, j). nat (j + 1 - i))") auto

declare partitionEqual_down.simps [simp del]

function partitionEqual_loop ::
  "('a \<Rightarrow> 'a \<Rightarrow> bool) \<Rightarrow> 'a list \<Rightarrow> int \<Rightarrow> int \<Rightarrow> int \<Rightarrow> halt + 'a list \<times> int" where
  "partitionEqual_loop lt data a i j =
     (case partitionEqual_up lt data a i j of
        Inl h \<Rightarrow> Inl h
      | Inr i \<Rightarrow>
          (case partitionEqual_down lt data a i j of
             Inl h \<Rightarrow> Inl h
           | Inr j \<Rightarrow>
               if i > j then Inr (data, i)
               else
                 (case Swap data i j of
                    Inl h \<Rightarrow> Inl h
                  | Inr data \<Rightarrow> partitionEqual_loop lt data a (i + 1) (j - 1))))"
  by pat_completeness auto
termination
proof -
  have up: "i \<le> i'" if "partitionEqual_up lt data a i j = Inr i'"
    for lt :: "'a \<Rightarrow> 'a \<Rightarrow> bool" and data a i j i'
    using that
  proof (induction lt data a i j rule: partitionEqual_up.induct)
    case (1 lt data a i j)
    show ?case
      using "1.prems" "1.IH"
      by (subst (asm) partitionEqual_up.simps) (fastforce split: if_splits sum.splits)
  qed
  have down: "j' \<le> j" if "partitionEqual_down lt data a i j = Inr j'"
    for lt :: "'a \<Rightarrow> 'a \<Rightarrow> bool" and data a i j j'
    using that
  proof (induction lt data a i j rule: partitionEqual_down.induct)
    case (1 lt data a i j)
    show ?case
      using "1.prems" "1.IH"
      by (subst (asm) partitionEqual_down.simps) (fastforce split: if_splits sum.splits)
  qed
  show ?thesis
    by (relation "measure (\<lambda>(lt, data, a, i, j). nat (j + 1 - i))")
       (auto dest!: up down)
qed

declare partitionEqual_loop.simps [simp del]

definition partitionEqual_func ::
  "('a \<Rightarrow> 'a \<Rightarrow> bool) \<Rightarrow> 'a list \<Rightarrow> int \<Rightarrow> int \<Rightarrow> int \<Rightarrow> halt + 'a list \<times> int" where
  "partitionEqual_func lt data a b pivot =
     (case Swap data a pivot of
        Inl h \<Rightarrow> Inl h
      | Inr data \<Rightarrow> partitionEqual_loop lt data a (a + 1) (b - 1))"

text \<open>
  \<^verbatim>\<open>pdqsort_func(data, a, b, limit)\<close>. The body of its \<^verbatim>\<open>for\<close> loop is the body of the
  function below; \<^verbatim>\<open>continue\<close> and the end of the loop body are calls with the new values
  of the variables \<open>a\<close>, \<open>b\<close>, \<^verbatim>\<open>wasBalanced\<close> and \<^verbatim>\<open>wasPartitioned\<close>, and the recursive
  call of the source starts with both flags true. \<open>duplicates\<close> is the condition
  \<^verbatim>\<open>a > 0 && !data.Less(a-1, pivot)\<close>. The function terminates because every partition
  returns an index inside \<open>a..b-1\<close>, and \<^verbatim>\<open>partitionEqual_func\<close> one above \<open>a\<close>.
\<close>

function pdqsort_func ::
  "('a \<Rightarrow> 'a \<Rightarrow> bool) \<Rightarrow> 'a list \<Rightarrow> int \<Rightarrow> int \<Rightarrow> int \<Rightarrow> bool \<Rightarrow> bool \<Rightarrow> halt + 'a list" where
  "pdqsort_func lt data a b limit wasBalanced wasPartitioned =
     (let len = b - a
      in if len \<le> 12 then insertionSort_func lt data a b
         else if limit = 0 then Inl OutsideModel
         else if \<not> wasBalanced then Inl OutsideModel
         else
           (case choosePivot_func lt data a b of
              Inl h \<Rightarrow> Inl h
            | Inr (pivot, hint) \<Rightarrow>
                (case (if hint = decreasingHint then
                         (case reverseRange_func data a b of
                            Inl h \<Rightarrow> Inl h
                          | Inr data \<Rightarrow> Inr (data, (b - 1) - (pivot - a), increasingHint))
                       else Inr (data, pivot, hint)) of
                   Inl h \<Rightarrow> Inl h
                 | Inr (data, pivot, hint) \<Rightarrow>
                     (case (if wasBalanced \<and> wasPartitioned \<and> hint = increasingHint
                            then partialInsertionSort_func lt data a b
                            else Inr (data, False)) of
                        Inl h \<Rightarrow> Inl h
                      | Inr (data, isSorted) \<Rightarrow>
                          if isSorted then Inr data
                          else
                            (case (if a > 0 then
                                     (case Less lt data (a - 1) pivot of
                                        Inl h \<Rightarrow> Inl h
                                      | Inr c \<Rightarrow> Inr (\<not> c))
                                   else Inr False) of
                               Inl h \<Rightarrow> Inl h
                             | Inr duplicates \<Rightarrow>
                                 if duplicates then
                                   (case partitionEqual_func lt data a b pivot of
                                      Inl h \<Rightarrow> Inl h
                                    | Inr (data, mid) \<Rightarrow>
                                        pdqsort_func lt data mid b limit wasBalanced
                                          wasPartitioned)
                                 else
                                   (case partition_func lt data a b pivot of
                                      Inl h \<Rightarrow> Inl h
                                    | Inr (data, mid, alreadyPartitioned) \<Rightarrow>
                                        (let leftLen = mid - a;
                                             rightLen = b - mid;
                                             balanceThreshold = len sdiv 8
                                         in if leftLen < rightLen then
                                              (case pdqsort_func lt data a mid limit True True of
                                                 Inl h \<Rightarrow> Inl h
                                               | Inr data \<Rightarrow>
                                                   pdqsort_func lt data (mid + 1) b limit
                                                     (leftLen \<ge> balanceThreshold)
                                                     alreadyPartitioned)
                                            else
                                              (case pdqsort_func lt data (mid + 1) b limit True
                                                      True of
                                                 Inl h \<Rightarrow> Inl h
                                               | Inr data \<Rightarrow>
                                                   pdqsort_func lt data a mid limit
                                                     (rightLen \<ge> balanceThreshold)
                                                     alreadyPartitioned))))))))"
  by pat_completeness auto
termination
proof -
  have pup: "i \<le> i'" if "partition_up lt data a i j = Inr i'"
    for lt :: "'a \<Rightarrow> 'a \<Rightarrow> bool" and data a i j i'
    using that
  proof (induction lt data a i j rule: partition_up.induct)
    case (1 lt data a i j)
    show ?case
      using "1.prems" "1.IH"
      by (subst (asm) partition_up.simps) (fastforce split: if_splits sum.splits)
  qed
  have pdown: "j' \<le> j \<and> (j' = j \<or> i - 1 \<le> j')" if "partition_down lt data a i j = Inr j'"
    for lt :: "'a \<Rightarrow> 'a \<Rightarrow> bool" and data a i j j'
    using that
  proof (induction lt data a i j rule: partition_down.induct)
    case (1 lt data a i j)
    show ?case
      using "1.prems" "1.IH"
      by (subst (asm) partition_down.simps) (fastforce split: if_splits sum.splits)
  qed
  have ploop: "a \<le> j' \<and> j' \<le> j"
    if "partition_loop lt data a i j = Inr (data', i', j')" and "a + 1 \<le> i" and "a \<le> j"
    for lt :: "'a \<Rightarrow> 'a \<Rightarrow> bool" and data a i j data' i' j'
    using that
  proof (induction lt data a i j rule: partition_loop.induct)
    case (1 lt data a i j)
    from "1.prems"(1) obtain i1 j1 where
      u: "partition_up lt data a i j = Inr i1" and d: "partition_down lt data a i1 j = Inr j1"
      and r: "if i1 > j1 then Inr (data, i1, j1) = (Inr (data', i', j') :: halt + 'a list \<times> int \<times> int)
              else (case Swap data i1 j1 of Inl h \<Rightarrow> Inl h
                    | Inr data \<Rightarrow> partition_loop lt data a (i1 + 1) (j1 - 1)) = Inr (data', i', j')"
      by (subst (asm) partition_loop.simps) (auto split: sum.splits if_splits)
    note b = pup [OF u] pdown [OF d]
    show ?case
    proof (cases "i1 > j1")
      case True
      with r b "1.prems"(2,3) show ?thesis by auto
    next
      case False
      with r obtain data1 where s: "Swap data i1 j1 = Inr data1"
        and l: "partition_loop lt data1 a (i1 + 1) (j1 - 1) = Inr (data', i', j')"
        by (auto split: sum.splits)
      have "a \<le> j' \<and> j' \<le> j1 - 1"
        using False b "1.prems"(2,3) by (intro "1.IH" [OF u d _ s l]) auto
      with b show ?thesis by auto
    qed
  qed
  have pfunc: "a \<le> mid \<and> mid < b"
    if pf: "partition_func lt data a b pivot = Inr (data', mid, ap)" and ab: "a < b"
    for lt :: "'a \<Rightarrow> 'a \<Rightarrow> bool" and data a b pivot data' mid ap
  proof -
    from pf obtain data0 where s0: "Swap data a pivot = Inr data0"
      unfolding partition_func_def by (auto split: sum.splits)
    from pf s0 obtain i1 where u: "partition_up lt data0 a (a + 1) (b - 1) = Inr i1"
      unfolding partition_func_def by (auto split: sum.splits)
    from pf s0 u obtain j1 where d: "partition_down lt data0 a i1 (b - 1) = Inr j1"
      unfolding partition_func_def by (auto split: sum.splits)
    note bnd = pup [OF u] pdown [OF d]
    show ?thesis
    proof (cases "i1 > j1")
      case True
      with pf s0 u d have "mid = j1"
        unfolding partition_func_def by (auto split: sum.splits)
      with True bnd ab show ?thesis by auto
    next
      case False
      with pf s0 u d obtain data1 where s1: "Swap data0 i1 j1 = Inr data1"
        unfolding partition_func_def by (auto split: sum.splits)
      with pf s0 u d False obtain data2 i2 where
        l: "partition_loop lt data1 a (i1 + 1) (j1 - 1) = Inr (data2, i2, mid)"
        unfolding partition_func_def by (auto split: sum.splits prod.splits)
      have "a \<le> mid \<and> mid \<le> j1 - 1"
        using False bnd by (intro ploop [OF l]) auto
      with bnd show ?thesis by auto
    qed
  qed
  have eup: "i \<le> i'" if "partitionEqual_up lt data a i j = Inr i'"
    for lt :: "'a \<Rightarrow> 'a \<Rightarrow> bool" and data a i j i'
    using that
  proof (induction lt data a i j rule: partitionEqual_up.induct)
    case (1 lt data a i j)
    show ?case
      using "1.prems" "1.IH"
      by (subst (asm) partitionEqual_up.simps) (fastforce split: if_splits sum.splits)
  qed
  have eloop: "i \<le> i'" if "partitionEqual_loop lt data a i j = Inr (data', i')"
    for lt :: "'a \<Rightarrow> 'a \<Rightarrow> bool" and data a i j data' i'
    using that
  proof (induction lt data a i j rule: partitionEqual_loop.induct)
    case (1 lt data a i j)
    from "1.prems"(1) obtain i1 j1 where
      u: "partitionEqual_up lt data a i j = Inr i1"
      and d: "partitionEqual_down lt data a i1 j = Inr j1"
      and r: "if i1 > j1 then Inr (data, i1) = (Inr (data', i') :: halt + 'a list \<times> int)
              else (case Swap data i1 j1 of Inl h \<Rightarrow> Inl h
                    | Inr data \<Rightarrow> partitionEqual_loop lt data a (i1 + 1) (j1 - 1)) = Inr (data', i')"
      by (subst (asm) partitionEqual_loop.simps) (auto split: sum.splits if_splits)
    note b = eup [OF u]
    show ?case
    proof (cases "i1 > j1")
      case True
      with r b show ?thesis by auto
    next
      case False
      with r obtain data1 where s: "Swap data i1 j1 = Inr data1"
        and l: "partitionEqual_loop lt data1 a (i1 + 1) (j1 - 1) = Inr (data', i')"
        by (auto split: sum.splits)
      have "i1 + 1 \<le> i'"
        using False by (intro "1.IH" [OF u d _ s l]) auto
      with b show ?thesis by auto
    qed
  qed
  have efunc: "a < mid" if "partitionEqual_func lt data a b pivot = Inr (data', mid)"
    for lt :: "'a \<Rightarrow> 'a \<Rightarrow> bool" and data a b pivot data' mid
    using that eloop unfolding partitionEqual_func_def
    by (fastforce split: sum.splits)
  show ?thesis
    by (relation "measure (\<lambda>(lt, data, a, b, limit, wasBalanced, wasPartitioned). nat (b - a))")
       (auto dest!: pfunc efunc)
qed

declare pdqsort_func.simps [simp del]

text \<open>
  \<^verbatim>\<open>bits.Len(x)\<close>, the number of bits of \<open>x\<close>, and \<^verbatim>\<open>sort.Slice(x, less)\<close>.
\<close>

fun bits_Len :: "nat \<Rightarrow> int" where
  "bits_Len x = (if x = 0 then 0 else bits_Len (x div 2) + 1)"

declare bits_Len.simps [simp del]

definition Slice :: "('a \<Rightarrow> 'a \<Rightarrow> bool) \<Rightarrow> 'a list \<Rightarrow> halt + 'a list" where
  "Slice lt x =
     (let len = int (length x);
          limit = bits_Len (length x)
      in pdqsort_func lt x 0 len limit True True)"

section \<open>Strings and numbers of the Go library, as the schedulers use them\<close>

text \<open>
  Strings are byte lists. The functions below follow package \<^verbatim>\<open>strings\<close> and
  \<^verbatim>\<open>strconv\<close> on ASCII text, which is what the scheduler tools print: \<^verbatim>\<open>Fields\<close>
  splits at the six ASCII white-space bytes and \<^verbatim>\<open>ToLower\<close> maps \<open>A\<close> to \<open>Z\<close> only
  (Go also knows the Unicode spaces and letters of a UTF-8 string).
\<close>

fun HasPrefix :: "string \<Rightarrow> string \<Rightarrow> bool" where
  "HasPrefix s [] = True"
| "HasPrefix [] (p # ps) = False"
| "HasPrefix (c # s) (p # ps) = (c = p \<and> HasPrefix s ps)"

fun Contains :: "string \<Rightarrow> string \<Rightarrow> bool" where
  "Contains [] substr = (substr = [])"
| "Contains (c # s) substr = (HasPrefix (c # s) substr \<or> Contains s substr)"

text \<open>
  \<^verbatim>\<open>strings.Split(s, sep)\<close>; every call of the program passes a separator of one byte.
  The third argument is the piece being read, reversed.
\<close>

fun Split_go :: "string \<Rightarrow> char \<Rightarrow> string \<Rightarrow> string list" where
  "Split_go [] sep cur = [rev cur]"
| "Split_go (c # s) sep cur =
     (if c = sep then rev cur # Split_go s sep [] else Split_go s sep (c # cur))"

definition Split :: "string \<Rightarrow> char \<Rightarrow> string list" where
  "Split s sep = Split_go s sep []"

text \<open>
  \<^verbatim>\<open>strings.ReplaceAll(s, old, new)\<close> for a non-empty \<open>old\<close> (the program never passes an
  empty one): the occurrences of \<open>old\<close> are replaced from the left, without overlap. The
  first argument counts the bytes of a matched occurrence still to be skipped.
\<close>

fun ReplaceAll_go :: "nat \<Rightarrow> string \<Rightarrow> string \<Rightarrow> string \<Rightarrow> string" where
  "ReplaceAll_go k [] old new = []"
| "ReplaceAll_go (Suc k) (c # s) old new = ReplaceAll_go k s old new"
| "ReplaceAll_go 0 (c # s) old new =
     (if HasPrefix (c # s) old then new @ ReplaceAll_go (length old - 1) s old new
      else c # ReplaceAll_go 0 s old new)"

definition ReplaceAll :: "string \<Rightarrow> string \<Rightarrow> string \<Rightarrow> string" where
  "ReplaceAll s old new = ReplaceAll_go 0 s old new"

definition isSpace :: "char \<Rightarrow> bool" where
  "isSpace c \<longleftrightarrow> c \<in> {CHR '' '', CHR 0x09, CHR 0x0A, CHR 0x0B, CHR 0x0C, CHR 0x0D}"

text \<open>\<^verbatim>\<open>strings.Fields\<close>; the second argument is the field being read, reversed.\<close>

fun Fields_go :: "string \<Rightarrow> string \<Rightarrow> string list" where
  "Fields_go [] cur = (if cur = [] then [] else [rev cur])"
| "Fields_go (c # s) cur =
     (if isSpace c then (if cur = [] then Fields_go s [] else rev cur # Fields_go s [])
      else Fields_go s (c # cur))"

definition Fields :: "string \<Rightarrow> string list" where
  "Fields s = Fields_go s []"

definition lower :: "char \<Rightarrow> char" where
  "lower c = (let n = (of_char c :: nat) in if 65 \<le> n \<and> n \<le> 90 then char_of (n + 32) else c)"

definition ToLower :: "string \<Rightarrow> string" where
  "ToLower s = map lower s"

definition isDigit :: "char \<Rightarrow> bool" where
  "isDigit c \<longleftrightarrow> 48 \<le> (of_char c :: nat) \<and> (of_char c :: nat) \<le> 57"

text \<open>The value of a string of decimal digits, given the value read so far.\<close>

fun decimal :: "int \<Rightarrow> string \<Rightarrow> int" where
  "decimal acc [] = acc"
| "decimal acc (c # s) = decimal (acc * 10 + (int (of_char c) - 48)) s"

datatype NumError = ErrSyntax | ErrRange

text \<open>
  \<^verbatim>\<open>strconv.ParseUint(s, 10, 64)\<close> reads the bytes from the left, the value so far as
  its first argument: a byte that is no digit ends it with a syntax error and the value
  0, and a digit that takes the value beyond \<open>2\<^sup>6\<^sup>4 - 1\<close> ends it with a range error
  and the value \<open>2\<^sup>6\<^sup>4 - 1\<close>, whatever follows.
\<close>

fun ParseUint_go :: "int \<Rightarrow> string \<Rightarrow> int \<times> NumError option" where
  "ParseUint_go n [] = (n, None)"
| "ParseUint_go n (c # s) =
     (if \<not> isDigit c then (0, Some ErrSyntax)
      else if 1844674407370955162 \<le> n then (18446744073709551615, Some ErrRange)
      else let n1 = n * 10 + (int (of_char c) - 48)
           in if 18446744073709551615 < n1 then (18446744073709551615, Some ErrRange)
              else ParseUint_go n1 s)"

definition ParseUint :: "string \<Rightarrow> int \<times> NumError option" where
  "ParseUint s = (if s = [] then (0, Some ErrSyntax) else ParseUint_go 0 s)"

text \<open>
  \<^verbatim>\<open>strconv.Atoi\<close>, which is \<^verbatim>\<open>ParseInt(s, 10, 0)\<close>: an optional sign, then
  \<^verbatim>\<open>ParseUint\<close>. With a syntax error it returns 0, with a range error the nearest
  64-bit value. (For a string of fewer than 19 bytes \<^verbatim>\<open>Atoi\<close> has a loop of its own,
  which computes the same.)
\<close>

definition Atoi :: "string \<Rightarrow> go_int \<times> NumError option" where
  "Atoi s =
     (if s = [] then (0, Some ErrSyntax)
      else
        (let neg = (hd s = CHR ''-'');
             body = (if hd s = CHR ''+'' \<or> hd s = CHR ''-'' then tl s else s);
             (un, err) = ParseUint body
         in if err = Some ErrSyntax then (0, Some ErrSyntax)
            else if \<not> neg \<and> 2 ^ 63 \<le> un then (word_of_int (2 ^ 63 - 1), Some ErrRange)
            else if neg \<and> 2 ^ 63 < un then (word_of_int (- (2 ^ 63)), Some ErrRange)
            else (word_of_int (if neg then - un else un), None)))"

text \<open>
  \<^verbatim>\<open>strconv.ParseFloat(s, 64)\<close> followed by the conversion \<^verbatim>\<open>int(memVal)\<close>, on the
  strings for which both are plain arithmetic: an optional sign, decimal digits and at
  most one point, with at least one and at most fifteen digits. The value of such a string
  is \<open>m / 10 ^ k\<close> for the integer \<open>m\<close> its digits spell and the number \<open>k\<close> of digits
  after the point; fifteen digits are within the precision of a float64, so the conversion
  to \<^verbatim>\<open>int\<close> yields that value truncated towards zero. A string that has none of the
  letters of an exponent, a hexadecimal float, an infinity or a NaN, and no underscore,
  and is not of this form, is a syntax error. Every other string is outside the model.
\<close>

datatype FloatResult = FloatInt go_int | FloatError | FloatNotModelled

definition isDecimalFloat :: "string \<Rightarrow> bool" where
  "isDecimalFloat body \<longleftrightarrow>
     (let ds = filter (\<lambda>c. c \<noteq> CHR ''.'') body
      in ds \<noteq> [] \<and> list_all isDigit ds \<and> length body \<le> length ds + 1)"

definition ParseFloat_int :: "string \<Rightarrow> FloatResult" where
  "ParseFloat_int s =
     (let neg = (s \<noteq> [] \<and> hd s = CHR ''-'');
          body = (if s \<noteq> [] \<and> (hd s = CHR ''-'' \<or> hd s = CHR ''+'') then tl s else s);
          ds = filter (\<lambda>c. c \<noteq> CHR ''.'') body;
          k = length (tl (dropWhile (\<lambda>c. c \<noteq> CHR ''.'') body))
      in if isDecimalFloat body then
           (if length ds \<le> 15
            then FloatInt (word_of_int ((if neg then - decimal 0 ds else decimal 0 ds) sdiv 10 ^ k))
            else FloatNotModelled)
         else if list_ex (\<lambda>c. c \<in> set ''eEpPxX_iInN'') s then FloatNotModelled
         else FloatError)"

section \<open>Scheduler adapters (package scheduler)\<close>

text \<open>
  Go \<^verbatim>\<open>error\<close> values: what \<^verbatim>\<open>cmd.Output()\<close> reports when the command cannot be run or
  exits with a failure, a message made by \<^verbatim>\<open>fmt.Errorf\<close>, an error wrapped with \<open>%w\<close>
  behind a message, and a run-time panic.
\<close>

datatype error = ExecError string | Message string | Wrapped string error | Panic string

text \<open>
  Every adapter runs a command and reads its output with a \<^verbatim>\<open>bufio.Scanner\<close>, line by
  line. The outcome of the command is an argument of the model: \<open>Inl\<close> the error of
  \<^verbatim>\<open>cmd.Output()\<close>, or \<open>Inr\<close> the lines that \<^verbatim>\<open>scanner.Scan()\<close> yields, in order.
\<close>

type_synonym command_output = "error + string list"

subsection \<open>SLURM\<close>

definition Slurm_parseNodeState :: "string \<Rightarrow> NodeState" where
  "Slurm_parseNodeState state =
     (let baseState = ToLower (hd (Split state (CHR ''+'')))
      in if baseState = ''idle'' then StateIdle
         else if baseState = ''allocated'' \<or> baseState = ''mixed'' then StateRunning
         else if baseState = ''down'' then StateDown
         else if baseState = ''offline'' then StateOffline
         else if baseState = ''drained'' \<or> baseState = ''drain'' then StateDrained
         else StateBusy)"

text \<open>The body of the loop over the fields of \<^verbatim>\<open>SlurmScheduler.parseNodeInfo\<close>.\<close>

definition Slurm_parseNodeInfo_field :: "Node \<Rightarrow> string \<Rightarrow> Node" where
  "Slurm_parseNodeInfo_field node field =
     (let parts = Split field (CHR ''='')
      in if length parts \<noteq> 2 then node
         else let key = parts ! 0; val = parts ! 1
           in if key = ''NodeName'' then node\<lparr>Node.ID := val\<rparr>
              else if key = ''State'' then node\<lparr>Node.State := Slurm_parseNodeState val\<rparr>
              else if key = ''CPUAlloc'' then
                (case Atoi val of (v, None) \<Rightarrow> node\<lparr>Node.UsedCores := v\<rparr> | (v, Some e) \<Rightarrow> node)
              else if key = ''CPUTot'' then
                (case Atoi val of (v, None) \<Rightarrow> node\<lparr>Node.TotalCores := v\<rparr> | (v, Some e) \<Rightarrow> node)
              else if key = ''AllocMem'' then
                (case Atoi val of (v, None) \<Rightarrow> node\<lparr>Node.UsedMemMB := v\<rparr> | (v, Some e) \<Rightarrow> node)
              else if key = ''RealMemory'' then
                (case Atoi val of (v, None) \<Rightarrow> node\<lparr>Node.TotalMemMB := v\<rparr> | (v, Some e) \<Rightarrow> node)
              else if key = ''Partitions'' then node\<lparr>Node.Partitions := Split val (CHR '','')\<rparr>
              else node)"

text \<open>
  \<^verbatim>\<open>SlurmScheduler.parseNodeInfo\<close>: its only \<^verbatim>\<open>return\<close> is \<^verbatim>\<open>return node, nil\<close>.
\<close>

definition Slurm_parseNodeInfo :: "string \<Rightarrow> error + Node" where
  "Slurm_parseNodeInfo nodeInfo =
     Inr (foldl Slurm_parseNodeInfo_field Node_zero (Fields nodeInfo))"

definition nodeInPartition :: "Node \<Rightarrow> string \<Rightarrow> bool" where
  "nodeInPartition node part = list_ex (\<lambda>p. p = part) (Node.Partitions node)"

text \<open>
  \<^verbatim>\<open>SlurmScheduler.GetNodes\<close>. \<open>Slurm_process\<close> is the block the source has twice
  (``process previous node'', ``process final node''); the loop carries the nodes found
  so far and the text of the record being collected.
\<close>

definition Slurm_process :: "string \<Rightarrow> Node list \<Rightarrow> string \<Rightarrow> Node list" where
  "Slurm_process part ns nodeInfo =
     (case Slurm_parseNodeInfo nodeInfo of
        Inr node \<Rightarrow> if nodeInPartition node part then ns @ [node] else ns
      | Inl e \<Rightarrow> ns)"

fun Slurm_GetNodes_loop :: "string \<Rightarrow> string list \<Rightarrow> Node list \<Rightarrow> string \<Rightarrow> Node list \<times> string" where
  "Slurm_GetNodes_loop part [] ns nodeInfo = (ns, nodeInfo)"
| "Slurm_GetNodes_loop part (line # rest) ns nodeInfo =
     (let (ns, nodeInfo) =
            (if Contains line ''NodeName='' then
               (if nodeInfo \<noteq> [] then (Slurm_process part ns nodeInfo, [])
                else (ns, nodeInfo))
             else (ns, nodeInfo))
      in Slurm_GetNodes_loop part rest ns (nodeInfo @ line @ '' ''))"

definition SlurmScheduler_GetNodes :: "command_output \<Rightarrow> string \<Rightarrow> error + Node list" where
  "SlurmScheduler_GetNodes scontrol part =
     (case scontrol of
        Inl e \<Rightarrow> Inl (Wrapped ''failed to run scontrol'' e)
      | Inr ls \<Rightarrow>
          (let (ns, nodeInfo) = Slurm_GetNodes_loop part ls [] [];
               ns = (if nodeInfo \<noteq> [] then Slurm_process part ns nodeInfo else ns)
           in if ns = [] then Inl (Message (''no nodes found in partition: '' @ part))
              else Inr ns))"

text \<open>
  The records that the loop of \<^verbatim>\<open>GetNodes\<close> hands to \<^verbatim>\<open>parseNodeInfo\<close>, in order:
  the values of \<^verbatim>\<open>nodeInfo\<close> at the two places where the source tests
  \<^verbatim>\<open>nodeInfo != ""\<close>. A record is the text of the lines from one that contains
  \<open>NodeName=\<close> up to the next, each line followed by a space. The first argument is the
  record being collected. (Used to state what \<^verbatim>\<open>GetNodes\<close> returns.)
\<close>

fun Slurm_records :: "string \<Rightarrow> string list \<Rightarrow> string list" where
  "Slurm_records nodeInfo [] = (if nodeInfo \<noteq> [] then [nodeInfo] else [])"
| "Slurm_records nodeInfo (line # rest) =
     (if Contains line ''NodeName='' \<and> nodeInfo \<noteq> []
      then nodeInfo # Slurm_records (line @ '' '') rest
      else Slurm_records (nodeInfo @ line @ '' '') rest)"

text \<open>
  \<^verbatim>\<open>parseTimeString\<close>; the result is a \<^verbatim>\<open>time.Duration\<close>, the seconds times
  \<open>10\<^sup>9\<close> nanoseconds. The function returns no error.
\<close>

definition parseTimeString :: "string \<Rightarrow> go_int" where
  "parseTimeString timeStr =
     (if timeStr = [] then 0
      else let (days, timeStr) =
                 (if Contains timeStr ''-'' then
                    (let parts = Split timeStr (CHR ''-'')
                     in if length parts = 2 then (fst (Atoi (parts ! 0)), parts ! 1)
                        else (0, timeStr))
                  else (0, timeStr));
               timeParts = Split timeStr (CHR '':'');
               (hours, minutes, seconds) =
                 (if length timeParts = 3
                  then (fst (Atoi (timeParts ! 0)), fst (Atoi (timeParts ! 1)),
                        fst (Atoi (timeParts ! 2)))
                  else (0, 0, 0));
               totalSeconds = days * 24 * 3600 + hours * 3600 + minutes * 60 + seconds
           in totalSeconds * 1000000000)"

text \<open>
  The memory block of \<^verbatim>\<open>SlurmScheduler.parseJobInfo\<close>: the five replacements, then
  \<^verbatim>\<open>ParseFloat\<close> and the conversion to \<^verbatim>\<open>int\<close>. The result is the new \<^verbatim>\<open>ReqMemMB\<close>
  (\<open>old\<close> when \<^verbatim>\<open>ParseFloat\<close> reports an error), or \<open>None\<close> where the string handed
  to \<^verbatim>\<open>ParseFloat\<close> is outside the model.
\<close>

definition memStr_replaced :: "string \<Rightarrow> string" where
  "memStr_replaced memStr =
     (let memStr = ReplaceAll memStr ''Mc'' '''';
          memStr = ReplaceAll memStr ''Mn'' '''';
          memStr = ReplaceAll memStr ''n'' '''';
          memStr = ReplaceAll memStr ''c'' ''''
      in ReplaceAll memStr ''G'' ''000'')"

definition parseReqMem :: "go_int \<Rightarrow> string \<Rightarrow> go_int option" where
  "parseReqMem old memStr =
     (case ParseFloat_int (memStr_replaced memStr) of
        FloatInt v \<Rightarrow> Some v
      | FloatError \<Rightarrow> Some old
      | FloatNotModelled \<Rightarrow> None)"

text \<open>
  \<^verbatim>\<open>SlurmScheduler.parseJobInfo\<close>. \<^verbatim>\<open>fields[5][:1]\<close> panics on an empty state field.
  The result is \<open>None\<close> where the memory field is outside the model of \<^verbatim>\<open>ParseFloat\<close>.
\<close>

definition Slurm_parseJobInfo :: "string list \<Rightarrow> (error + Job) option" where
  "Slurm_parseJobInfo flds =
     (if length flds < 12 then Some (Inl (Message ''insufficient fields''))
      else if flds ! 5 = [] then Some (Inl (Panic ''slice bounds out of range''))
      else
        (let job = Job_zero\<lparr>Job.Partition := flds ! 0,
                     Job.NodeList := Split (flds ! 1) (CHR '',''),
                     Job.ID := flds ! 2, Job.User := flds ! 3, Job.Name := flds ! 4,
                     Job.State := take 1 (flds ! 5)\<rparr>;
             job = (case Atoi (flds ! 6) of
                      (v, None) \<Rightarrow> job\<lparr>Job.ReqNodes := v\<rparr> | (v, Some e) \<Rightarrow> job);
             job = (case Atoi (flds ! 7) of
                      (v, None) \<Rightarrow> job\<lparr>Job.ReqCPUs := v\<rparr> | (v, Some e) \<Rightarrow> job)
         in case parseReqMem (Job.ReqMemMB job) (flds ! 8) of
              None \<Rightarrow> None
            | Some m \<Rightarrow>
                Some (Inr (job\<lparr>Job.ReqMemMB := m,
                             Job.TimeLimit := parseTimeString (flds ! 9),
                             Job.Elapsed := parseTimeString (flds ! 10),
                             Job.CPUTime := parseTimeString (flds ! 11)\<rparr>))))"

subsection \<open>Torque\<close>

definition Torque_parseNodeState :: "string \<Rightarrow> NodeState" where
  "Torque_parseNodeState state =
     (let s = ToLower state
      in if s = ''free'' then StateIdle
         else if s = ''busy'' then StateBusy
         else if s = ''down'' then StateDown
         else if s = ''offline'' then StateOffline
         else StateBusy)"

text \<open>
  ``Clean up multiple spaces'': \<^verbatim>\<open>for i := 30; i > 1; i-- { line = ReplaceAll(line,
  Repeat(" ", i), " ") }\<close>, the counter as the first argument.
\<close>

fun cleanSpaces :: "nat \<Rightarrow> string \<Rightarrow> string" where
  "cleanSpaces 0 line = line"
| "cleanSpaces (Suc k) line =
     (if Suc k > 1 then cleanSpaces k (ReplaceAll line (replicate (Suc k) (CHR '' '')) '' '')
      else line)"

definition Torque_parseNodeInfo :: "string \<Rightarrow> error + Node" where
  "Torque_parseNodeInfo line =
     (let flds = Split (cleanSpaces 30 line) (CHR '' '')
      in if length flds < 4 then Inl (Message ''insufficient fields in node info'')
         else
           (let node = Node_zero\<lparr>Node.ID := flds ! 0,
                         Node.State := Torque_parseNodeState (flds ! 1)\<rparr>;
                cpuParts = Split (flds ! 2) (CHR '':'');
                node = (if length cpuParts = 2 then
                          (let node = (case Atoi (cpuParts ! 1) of
                                         (tot, None) \<Rightarrow> node\<lparr>Node.TotalCores := tot\<rparr>
                                       | (tot, Some e) \<Rightarrow> node)
                           in case Atoi (cpuParts ! 0) of
                                (avail, None) \<Rightarrow>
                                  node\<lparr>Node.UsedCores := Node.TotalCores node - avail\<rparr>
                              | (avail, Some e) \<Rightarrow> node)
                        else node);
                memParts = Split (flds ! 3) (CHR '':'');
                node = (if length memParts = 2 then
                          (let node = (case Atoi (memParts ! 1) of
                                         (tot, None) \<Rightarrow>
                                           node\<lparr>Node.TotalMemMB := go_quo tot 1000\<rparr>
                                       | (tot, Some e) \<Rightarrow> node)
                           in case Atoi (memParts ! 0) of
                                (avail, None) \<Rightarrow>
                                  node\<lparr>Node.UsedMemMB :=
                                         Node.TotalMemMB node - go_quo avail 1000\<rparr>
                              | (avail, Some e) \<Rightarrow> node)
                        else node)
            in Inr node))"

text \<open>The body of the loop over the lines of \<^verbatim>\<open>TorqueScheduler.GetNodes\<close>.\<close>

definition Torque_selected :: "string \<Rightarrow> string \<Rightarrow> bool" where
  "Torque_selected part line \<longleftrightarrow>
     Contains line (''['' @ part @ '']'') \<and> \<not> Contains line (''['' @ part @ '']['')"

definition Torque_GetNodes_step :: "string \<Rightarrow> Node list \<Rightarrow> string \<Rightarrow> Node list" where
  "Torque_GetNodes_step part ns line =
     (if Torque_selected part line then
        (case Torque_parseNodeInfo line of Inr node \<Rightarrow> ns @ [node] | Inl e \<Rightarrow> ns)
      else ns)"

text \<open>What one line contributes to the node list (used in proofs).\<close>

definition Torque_parsed :: "string \<Rightarrow> string \<Rightarrow> Node list" where
  "Torque_parsed part line =
     (if Torque_selected part line then
        (case Torque_parseNodeInfo line of Inr node \<Rightarrow> [node] | Inl e \<Rightarrow> [])
      else [])"

definition TorqueScheduler_GetNodes :: "command_output \<Rightarrow> string \<Rightarrow> error + Node list" where
  "TorqueScheduler_GetNodes mdiag part =
     (case mdiag of
        Inl e \<Rightarrow> Inl (Wrapped ''failed to run mdiag'' e)
      | Inr ls \<Rightarrow>
          (let ns = foldl (Torque_GetNodes_step part) [] ls
           in if ns = [] then Inl (Message (''no nodes found in partition: '' @ part))
              else Inr ns))"

text \<open>
  \<^verbatim>\<open>TorqueScheduler.GetUserJobs\<close>: the loop reads every line of the output of
  \<^verbatim>\<open>qstat -u user\<close> and does nothing with it (\<^verbatim>\<open>_ = line // placeholder\<close>).
\<close>

definition TorqueScheduler_GetUserJobs :: "command_output \<Rightarrow> string \<Rightarrow> error + Job list" where
  "TorqueScheduler_GetUserJobs qstat user =
     (case qstat of
        Inl e \<Rightarrow> Inl (Wrapped (''failed to run qstat for user '' @ user) e)
      | Inr ls \<Rightarrow> Inr (foldl (\<lambda>jobs line. jobs) [] ls))"

section \<open>The refresh cycle (package ui)\<close>

text \<open>
  The \<^verbatim>\<open>Scheduler\<close> interface as \<^verbatim>\<open>fetchData\<close> uses it: one value of this record is
  the backend as it answers during one refresh attempt. (\<^verbatim>\<open>GetPartitions\<close> and
  \<^verbatim>\<open>GetSystemType\<close> are called nowhere in the package.)
\<close>

record Scheduler =
  GetNodes :: "string \<Rightarrow> error + Node list"
  GetJobs :: "string \<Rightarrow> error + Job list"
  GetUserJobs :: "string \<Rightarrow> error + Job list"

datatype key = KeyQuit | KeyRefresh | KeyBatch | KeyHighMem | KeyGPU | KeyOther

text \<open>
  The messages \<^verbatim>\<open>Update\<close> distinguishes. \<^verbatim>\<open>dataMsg\<close> carries nodes, jobs, userJobs and
  stats, in this order.
\<close>

datatype Msg =
  WindowSizeMsg go_int go_int
| KeyMsg key
| tickMsg
| dataMsg "Node list" "Job list" "Job list" ClusterStats
| errorMsg error
| OtherMsg

text \<open>
  The commands \<^verbatim>\<open>Update\<close> returns: \<^verbatim>\<open>tea.Quit\<close>, \<^verbatim>\<open>a.fetchData()\<close>, \<^verbatim>\<open>a.tick()\<close>
  and the command of the table component.
\<close>

datatype Cmd = cmd_Quit | cmd_fetchData | cmd_tick | cmd_table

text \<open>
  The function that \<^verbatim>\<open>fetchData\<close> wraps into a command. The library sort is its first
  argument; the partition and the user are those of the application when the command runs.
\<close>

definition fetchData ::
  "((Node \<Rightarrow> Node \<Rightarrow> bool) \<Rightarrow> Node list \<Rightarrow> Node list) \<Rightarrow> Scheduler \<Rightarrow> string \<Rightarrow> string \<Rightarrow> Msg"
  where
  "fetchData sort_Slice scheduler currentPartition currentUser =
     (case GetNodes scheduler currentPartition of
        Inl err \<Rightarrow> errorMsg err
      | Inr nodes \<Rightarrow>
          (case GetJobs scheduler currentPartition of
             Inl err \<Rightarrow> errorMsg err
           | Inr jobs \<Rightarrow>
               (let userJobs = (case GetUserJobs scheduler currentUser of
                                  Inl err \<Rightarrow> []
                                | Inr userJobs \<Rightarrow> userJobs);
                    nodes = sort_Slice nodeLess nodes;
                    stats = calculateStats nodes
                in dataMsg nodes jobs userJobs stats)))"

definition userHasJobsOnNode :: "Job list \<Rightarrow> string \<Rightarrow> bool" where
  "userHasJobsOnNode userJobs nodeID =
     list_ex (\<lambda>job. Job.State job = JobRunning \<and>
                     list_ex (\<lambda>jobNode. jobNode = nodeID) (Job.NodeList job)) userJobs"

text \<open>
  \<^verbatim>\<open>updateTable\<close>: one row per node. Of a row the model keeps the node's id and whether
  \<^verbatim>\<open>formatNodeID\<close> marks it with the star of the user's jobs; the other cells are
  formatted from the node alone.
\<close>

definition updateTable :: "Node list \<Rightarrow> Job list \<Rightarrow> (string \<times> bool) list" where
  "updateTable nodes userJobs =
     map (\<lambda>node. (Node.ID node, userHasJobsOnNode userJobs (Node.ID node))) nodes"

text \<open>
  The application model, without its styling and key bindings: \<^verbatim>\<open>rows\<close> are the rows of
  \<^verbatim>\<open>nodesTable\<close>, \<^verbatim>\<open>lastUpdate\<close> a reading of the clock, \<^verbatim>\<open>err\<close> is \<open>None\<close> for \<^verbatim>\<open>nil\<close>.
\<close>

record App =
  currentPartition :: string
  nodes :: "Node list"
  jobs :: "Job list"
  userJobs :: "Job list"
  currentUser :: string
  rows :: "(string \<times> bool) list"
  stats :: ClusterStats
  width :: go_int
  height :: go_int
  lastUpdate :: nat
  err :: "error option"

text \<open>
  \<^verbatim>\<open>Update\<close>, with the clock's reading (\<^verbatim>\<open>time.Now()\<close>) as its first argument. Resizing
  and navigating the table is left to the table component.
\<close>

fun Update :: "nat \<Rightarrow> App \<Rightarrow> Msg \<Rightarrow> App \<times> Cmd list" where
  "Update now a (WindowSizeMsg w h) = (a\<lparr>width := w, height := h\<rparr>, [cmd_table])"
| "Update now a (KeyMsg k) =
     (case k of
        KeyQuit \<Rightarrow> (a, [cmd_Quit])
      | KeyRefresh \<Rightarrow> (a, [cmd_fetchData, cmd_table])
      | KeyBatch \<Rightarrow> (a\<lparr>currentPartition := ''batch''\<rparr>, [cmd_fetchData, cmd_table])
      | KeyHighMem \<Rightarrow> (a\<lparr>currentPartition := ''highmem_q''\<rparr>, [cmd_fetchData, cmd_table])
      | KeyGPU \<Rightarrow> (a\<lparr>currentPartition := ''gpu_q''\<rparr>, [cmd_fetchData, cmd_table])
      | KeyOther \<Rightarrow> (a, [cmd_table]))"
| "Update now a tickMsg = (a, [cmd_tick, cmd_fetchData, cmd_table])"
| "Update now a (dataMsg ns js ujs st) =
     (a\<lparr>nodes := ns, jobs := js, userJobs := ujs, stats := st, lastUpdate := now,
        err := None, rows := updateTable ns ujs\<rparr>, [cmd_table])"
| "Update now a (errorMsg e) = (a\<lparr>err := Some e\<rparr>, [cmd_table])"
| "Update now a OtherMsg = (a, [cmd_table])"

text \<open>
  One refresh attempt: the command of \<^verbatim>\<open>fetchData\<close> runs against the backend, and
  \<^verbatim>\<open>Update\<close> receives its message.
\<close>

definition refresh ::
  "((Node \<Rightarrow> Node \<Rightarrow> bool) \<Rightarrow> Node list \<Rightarrow> Node list) \<Rightarrow> Scheduler \<Rightarrow> nat \<Rightarrow> App \<Rightarrow> App"
  where
  "refresh sort_Slice scheduler now a =
     fst (Update now a (fetchData sort_Slice scheduler (currentPartition a) (currentUser a)))"

text \<open>The two counts that \<^verbatim>\<open>renderJobsSummary\<close> prints: running jobs, and ``yours''.\<close>

definition renderJobsSummary :: "App \<Rightarrow> nat \<times> nat" where
  "renderJobsSummary a = (length (jobs a), length (userJobs a))"

section \<open>Nodes used as concrete inputs\<close>

text \<open>
  The two nodes of the specification's scenario, memory as the data model stores it
  (\<^verbatim>\<open>TotalMemMB\<close>, \<^verbatim>\<open>UsedMemMB\<close>).
\<close>

definition scenario_a :: Node where
  "scenario_a = \<lparr>Node.ID = ''a'', Node.State = StateIdle, Node.TotalCores = 10,
     Node.UsedCores = 0, Node.TotalMemMB = 100, Node.UsedMemMB = 0,
     Node.Partitions = [''batch''], Node.Jobs = []\<rparr>"

definition scenario_b :: Node where
  "scenario_b = \<lparr>Node.ID = ''b'', Node.State = StateRunning, Node.TotalCores = 10,
     Node.UsedCores = 2, Node.TotalMemMB = 100, Node.UsedMemMB = 10,
     Node.Partitions = [''batch''], Node.Jobs = []\<rparr>"

text \<open>An idle node that reports no cores of its own and a negative number of used cores.\<close>

definition idle_negative_used :: Node where
  "idle_negative_used = \<lparr>Node.ID = ''n1'', Node.State = StateIdle, Node.TotalCores = 0,
     Node.UsedCores = - 4, Node.TotalMemMB = 16000, Node.UsedMemMB = 8000,
     Node.Partitions = [], Node.Jobs = []\<rparr>"

definition idle_no_cores :: Node where
  "idle_no_cores = \<lparr>Node.ID = ''n2'', Node.State = StateIdle, Node.TotalCores = 0,
     Node.UsedCores = 0, Node.TotalMemMB = 16000, Node.UsedMemMB = 0,
     Node.Partitions = [], Node.Jobs = []\<rparr>"

definition down_with_resources :: Node where
  "down_with_resources = \<lparr>Node.ID = ''n3'', Node.State = StateDown, Node.TotalCores = 64,
     Node.UsedCores = 0, Node.TotalMemMB = 256000, Node.UsedMemMB = 0,
     Node.Partitions = [], Node.Jobs = []\<rparr>"

text \<open>
  Two available nodes with 10 available cores each and 5 GB and 50 GB of available
  memory, and nodes that are not available: one Busy, one Running with every core in use,
  two Down.
\<close>

definition avail_5gb :: Node where
  "avail_5gb = \<lparr>Node.ID = ''A'', Node.State = StateIdle, Node.TotalCores = 10,
     Node.UsedCores = 0, Node.TotalMemMB = 5000, Node.UsedMemMB = 0,
     Node.Partitions = [], Node.Jobs = []\<rparr>"

definition avail_50gb :: Node where
  "avail_50gb = \<lparr>Node.ID = ''B'', Node.State = StateRunning, Node.TotalCores = 16,
     Node.UsedCores = 6, Node.TotalMemMB = 64000, Node.UsedMemMB = 14000,
     Node.Partitions = [], Node.Jobs = []\<rparr>"

definition busy_node :: Node where
  "busy_node = \<lparr>Node.ID = ''busy'', Node.State = StateBusy, Node.TotalCores = 32,
     Node.UsedCores = 32, Node.TotalMemMB = 128000, Node.UsedMemMB = 100000,
     Node.Partitions = [], Node.Jobs = []\<rparr>"

definition running_full :: Node where
  "running_full = \<lparr>Node.ID = ''full'', Node.State = StateRunning, Node.TotalCores = 32,
     Node.UsedCores = 32, Node.TotalMemMB = 128000, Node.UsedMemMB = 64000,
     Node.Partitions = [], Node.Jobs = []\<rparr>"

definition down_1 :: Node where
  "down_1 = \<lparr>Node.ID = ''d1'', Node.State = StateDown, Node.TotalCores = 32,
     Node.UsedCores = 0, Node.TotalMemMB = 128000, Node.UsedMemMB = 0,
     Node.Partitions = [], Node.Jobs = []\<rparr>"

definition down_2 :: Node where
  "down_2 = \<lparr>Node.ID = ''d2'', Node.State = StateDown, Node.TotalCores = 32,
     Node.UsedCores = 0, Node.TotalMemMB = 128000, Node.UsedMemMB = 0,
     Node.Partitions = [], Node.Jobs = []\<rparr>"

text \<open>
  Twelve Down nodes followed by a Busy node, as an adapter may return them, and the same
  nodes in another order.
\<close>

definition down_n :: "nat \<Rightarrow> Node" where
  "down_n k = \<lparr>Node.ID = [''d00'', ''d01'', ''d02'', ''d03'', ''d04'', ''d05'', ''d06'',
       ''d07'', ''d08'', ''d09'', ''d10'', ''d11''] ! k,
     Node.State = StateDown, Node.TotalCores = 32, Node.UsedCores = 0,
     Node.TotalMemMB = 128000, Node.UsedMemMB = 0, Node.Partitions = [], Node.Jobs = []\<rparr>"

definition adapter_order :: "Node list" where
  "adapter_order = [down_n 0, down_n 1, down_n 2, down_n 3, down_n 4, down_n 5, down_n 6,
     down_n 7, down_n 8, down_n 9, down_n 10, down_n 11, busy_node]"

definition quicksort_order :: "Node list" where
  "quicksort_order = [busy_node, down_n 6, down_n 2, down_n 3, down_n 4, down_n 5, down_n 0,
     down_n 7, down_n 8, down_n 9, down_n 10, down_n 11, down_n 1]"

text \<open>
  Two available nodes with 9223372036854775 available cores each and 807 GB and 808 GB
  of available memory: the score of the first is the largest 64-bit integer.
\<close>

definition big_a :: Node where
  "big_a = \<lparr>Node.ID = ''big-a'', Node.State = StateIdle,
     Node.TotalCores = 9223372036854775, Node.UsedCores = 0, Node.TotalMemMB = 807000,
     Node.UsedMemMB = 0, Node.Partitions = [], Node.Jobs = []\<rparr>"

definition big_b :: Node where
  "big_b = \<lparr>Node.ID = ''big-b'', Node.State = StateIdle,
     Node.TotalCores = 9223372036854775, Node.UsedCores = 0, Node.TotalMemMB = 808000,
     Node.UsedMemMB = 0, Node.Partitions = [], Node.Jobs = []\<rparr>"

text \<open>Outputs of the scheduler tools, and the nodes and jobs parsed from them.\<close>

definition mdiag_line_n1 :: string where
  "mdiag_line_n1 = ''n1   free   4:8   8000000:16000000 [batch]''"

definition mdiag_line_bad :: string where
  "mdiag_line_bad = ''n2 [batch]''"

definition mdiag_line_n3 :: string where
  "mdiag_line_n3 = ''n3   busy   0:8   1000000:16000000 [batch]''"

definition mdiag_line_garbage :: string where
  "mdiag_line_garbage = ''n2 ??? 4/8 lots-of-memory [batch]''"

definition mdiag_lines :: "string list" where
  "mdiag_lines = [mdiag_line_n1, mdiag_line_bad, mdiag_line_n3]"

definition torque_n1 :: Node where
  "torque_n1 = \<lparr>Node.ID = ''n1'', Node.State = StateIdle, Node.TotalCores = 8,
     Node.UsedCores = 4, Node.TotalMemMB = 16000, Node.UsedMemMB = 8000,
     Node.Partitions = [], Node.Jobs = []\<rparr>"

definition torque_n3 :: Node where
  "torque_n3 = \<lparr>Node.ID = ''n3'', Node.State = StateBusy, Node.TotalCores = 8,
     Node.UsedCores = 8, Node.TotalMemMB = 16000, Node.UsedMemMB = 15000,
     Node.Partitions = [], Node.Jobs = []\<rparr>"

definition torque_n2_garbage :: Node where
  "torque_n2_garbage = \<lparr>Node.ID = ''n2'', Node.State = StateBusy, Node.TotalCores = 0,
     Node.UsedCores = 0, Node.TotalMemMB = 0, Node.UsedMemMB = 0,
     Node.Partitions = [], Node.Jobs = []\<rparr>"

definition scontrol_lines :: "string list" where
  "scontrol_lines =
     [''NodeName=n1 State=IDLE CPUAlloc=0 CPUTot=16 RealMemory=64000 AllocMem=0 Partitions=batch'',
      ''NodeName=n2 State=IDLE CPUAlloc==2 CPUTot=sixteen RealMemory= Partitions=batch'']"

definition slurm_n1 :: Node where
  "slurm_n1 = \<lparr>Node.ID = ''n1'', Node.State = StateIdle, Node.TotalCores = 16,
     Node.UsedCores = 0, Node.TotalMemMB = 64000, Node.UsedMemMB = 0,
     Node.Partitions = [''batch''], Node.Jobs = []\<rparr>"

definition slurm_n2_malformed :: Node where
  "slurm_n2_malformed = \<lparr>Node.ID = ''n2'', Node.State = StateIdle, Node.TotalCores = 0,
     Node.UsedCores = 0, Node.TotalMemMB = 0, Node.UsedMemMB = 0,
     Node.Partitions = [''batch''], Node.Jobs = []\<rparr>"

text \<open>
  The output of \<^verbatim>\<open>scontrol show nodes\<close> with records of several lines; the second
  record has no field that parses but its partition.
\<close>

definition scontrol_records :: "string list" where
  "scontrol_records =
     [''NodeName=n1 CPUAlloc=0 CPUTot=16'',
      ''   RealMemory=64000 AllocMem=0'',
      ''   State=IDLE Partitions=batch'',
      ''NodeName=n2 CPUAlloc==2 CPUTot=sixteen'',
      ''   RealMemory= State=IDLE Partitions=batch'',
      ''NodeName=n3 State=IDLE Partitions=gpu_q'']"

text \<open>
  The fields of one line of \<^verbatim>\<open>sacct -p\<close>, split at \<open>|\<close>; the requested memory is
  \<open>1.5G\<close>.
\<close>

definition sacct_fields :: "string list" where
  "sacct_fields = [''batch'', ''n1'', ''123'', ''alice'', ''job'', ''RUNNING'', ''1'', ''4'',
     ''1.5G'', ''01:00:00'', ''00:10:00'', ''00:40:00'', []]"

text \<open>An application state with a published snapshot, and backends for one refresh.\<close>

definition job_1 :: Job where
  "job_1 = Job_zero\<lparr>Job.ID := ''4711'', Job.User := ''alice'', Job.State := JobRunning,
     Job.NodeList := [''d1'']\<rparr>"

definition app_0 :: App where
  "app_0 = \<lparr>currentPartition = ''batch'', nodes = [down_1], jobs = [job_1],
     userJobs = [job_1], currentUser = ''alice'', rows = [(''d1'', True)],
     stats = calculateStats [down_1], width = 80, height = 24, lastUpdate = 1, err = None\<rparr>"

definition sched_user_jobs_fail :: Scheduler where
  "sched_user_jobs_fail = \<lparr>GetNodes = (\<lambda>p. Inr [avail_5gb]), GetJobs = (\<lambda>p. Inr [job_1]),
     GetUserJobs = (\<lambda>u. Inl (ExecError ''exit status 1''))\<rparr>"

definition sched_nodes_fail :: Scheduler where
  "sched_nodes_fail =
     \<lparr>GetNodes = (\<lambda>p. Inl (Message ''no nodes found in partition: batch'')),
      GetJobs = (\<lambda>p. Inr [job_1]), GetUserJobs = (\<lambda>u. Inr [job_1])\<rparr>"

definition sched_jobs_fail :: Scheduler where
  "sched_jobs_fail = \<lparr>GetNodes = (\<lambda>p. Inr [avail_5gb]),
     GetJobs = (\<lambda>p. Inl (ExecError ''exit status 1'')), GetUserJobs = (\<lambda>u. Inr [job_1])\<rparr>"

definition qstat_lines :: "string list" where
  "qstat_lines = [''4711.head alice batch job 1234 1 4 8gb 01:00 R 00:10'']"

definition sched_torque :: Scheduler where
  "sched_torque = \<lparr>GetNodes = TorqueScheduler_GetNodes (Inr mdiag_lines),
     GetJobs = (\<lambda>p. Inr [job_1]),
     GetUserJobs = TorqueScheduler_GetUserJobs (Inr qstat_lines)\<rparr>"

section \<open>Truncating division by 1000\<close>

lemmas NodeState_defs =
  StateIdle_def StateRunning_def StateDown_def StateOffline_def StateBusy_def
  StateDrained_def

lemma sdiv_1000_pos: "0 < (k::int) sdiv 1000 \<longleftrightarrow> 1000 \<le> k"
proof (cases "0 < k")
  case True
  then show ?thesis
    by (simp add: signed_divide_int_def pos_imp_zdiv_pos_iff)
next
  case False
  then have "0 \<le> (- k) div 1000"
    by (simp add: pos_imp_zdiv_nonneg_iff)
  with False show ?thesis
    by (auto simp: signed_divide_int_def sgn_if)
qed

lemma sdiv_1000_bounds:
  "- (2 ^ 63) \<le> (k::int) \<Longrightarrow> k < 2 ^ 63 \<Longrightarrow>
   - (2 ^ 63) \<le> k sdiv 1000 \<and> k sdiv 1000 < 2 ^ 63"
  by (auto simp: signed_divide_int_def sgn_if abs_if)

lemma sint_go_quo_1000: "sint (go_quo a 1000) = sint a sdiv 1000"
proof -
  have r: "- (2 ^ 63) \<le> sint a" "sint a < 2 ^ 63"
    using sint_ge [of a] sint_lt [of a] by simp_all
  have s: "sint (1000 :: go_int) = 1000"
    by simp
  have b: "- (2 ^ 63) \<le> sint a sdiv 1000 \<and> sint a sdiv 1000 < 2 ^ 63"
    using r by (rule sdiv_1000_bounds)
  show ?thesis
    unfolding go_quo_def s using b
    by (simp add: sint_sbintrunc' signed_take_bit_int_eq_self)
qed

lemma go_quo_1000_pos: "0 <s go_quo a 1000 \<longleftrightarrow> 1000 \<le>s a"
  by (simp add: word_sless_alt word_sle_eq sint_go_quo_1000 sdiv_1000_pos)

lemmas go_int_eval = word_sless_alt word_sle_eq sint_go_quo_1000 signed_divide_int_def

lemmas Node_eval = IsAvailable_def GetAvailCores_def GetAvailMemGB_def GetTotalMemGB_def
  GetUsedMemGB_def NodeState_defs

section \<open>The availability predicate\<close>

lemma GetAvailMemGB_pos:
  "0 <s GetAvailMemGB n \<longleftrightarrow> 1000 \<le>s Node.TotalMemMB n - Node.UsedMemMB n"
  by (simp add: GetAvailMemGB_def go_quo_1000_pos)

lemma Down_not_available: "Node.State n = StateDown \<Longrightarrow> \<not> IsAvailable n"
  by (simp add: IsAvailable_def NodeState_defs)

lemma no_cores_not_available:
  assumes "Node.TotalCores n = 0" and "0 \<le>s Node.UsedCores n"
  shows "\<not> IsAvailable n"
proof -
  have hi: "sint (Node.UsedCores n) < 2 ^ 63"
    using sint_lt [of "Node.UsedCores n"] by simp
  have nonneg: "0 \<le> sint (Node.UsedCores n)"
    using assms(2) by (simp add: word_sle_eq)
  have "signed_take_bit 63 (- sint (Node.UsedCores n)) = - sint (Node.UsedCores n)"
    by (rule signed_take_bit_int_eq_self) (use hi nonneg in simp_all)
  then have "sint (- Node.UsedCores n) = - sint (Node.UsedCores n)"
    by (simp add: sint_word_ariths)
  with nonneg have "\<not> 0 <s GetAvailCores n"
    by (simp add: GetAvailCores_def assms(1) word_sless_alt)
  then show ?thesis
    by (simp add: IsAvailable_def)
qed

text \<open>
  C1 (as amended). A node is available exactly when its state is Idle or Running, its
  available cores (total minus used, as \<^verbatim>\<open>GetAvailCores\<close> computes them) are strictly
  positive, and its available memory in whole GB (\<^verbatim>\<open>GetAvailMemGB\<close>) is strictly
  positive, which is the case exactly when at least 1000 MB are free. A node whose state
  is Down is never available. A node whose state is Idle, with zero total cores and a
  used-core count that is not negative, is never available.
\<close>

theorem IsAvailable_iff:
  "(IsAvailable n \<longleftrightarrow>
      (Node.State n = StateIdle \<or> Node.State n = StateRunning) \<and>
      0 <s Node.TotalCores n - Node.UsedCores n \<and> 0 <s GetAvailMemGB n) \<and>
   (0 <s GetAvailMemGB n \<longleftrightarrow> 1000 \<le>s Node.TotalMemMB n - Node.UsedMemMB n) \<and>
   (Node.State n = StateDown \<longrightarrow> \<not> IsAvailable n) \<and>
   (Node.State n = StateIdle \<and> Node.TotalCores n = 0 \<and> 0 \<le>s Node.UsedCores n
      \<longrightarrow> \<not> IsAvailable n)"
proof (intro conjI impI)
  show "IsAvailable n \<longleftrightarrow>
      (Node.State n = StateIdle \<or> Node.State n = StateRunning) \<and>
      0 <s Node.TotalCores n - Node.UsedCores n \<and> 0 <s GetAvailMemGB n"
    by (simp add: IsAvailable_def GetAvailCores_def)
  show "0 <s GetAvailMemGB n \<longleftrightarrow> 1000 \<le>s Node.TotalMemMB n - Node.UsedMemMB n"
    by (rule GetAvailMemGB_pos)
  show "\<not> IsAvailable n" if "Node.State n = StateDown"
    using that by (rule Down_not_available)
  show "\<not> IsAvailable n"
    if "Node.State n = StateIdle \<and> Node.TotalCores n = 0 \<and> 0 \<le>s Node.UsedCores n"
    using that no_cores_not_available by blast
qed

theorem IsAvailable_iff_witness:
  "Node.State down_with_resources = StateDown \<and> \<not> IsAvailable down_with_resources \<and>
   Node.State idle_no_cores = StateIdle \<and> Node.TotalCores idle_no_cores = 0 \<and>
   0 \<le>s Node.UsedCores idle_no_cores \<and> \<not> IsAvailable idle_no_cores"
  using IsAvailable_iff [of down_with_resources] IsAvailable_iff [of idle_no_cores]
  by (simp add: down_with_resources_def idle_no_cores_def NodeState_defs)

text \<open>
  C1 as stated fails: this node is Idle and has zero total cores, and it is available,
  because its used-core count is negative. It is the node that the Torque adapter makes
  of a line whose CPU field has an unreadable total: \<^verbatim>\<open>TotalCores\<close> stays 0 and
  \<^verbatim>\<open>UsedCores\<close> becomes 0 minus the available count.
\<close>

theorem IsAvailable_idle_zero_cores_counterexample:
  "Torque_parseNodeInfo ''n1 free 4:x 8000000:16000000 [batch]'' = Inr idle_negative_used \<and>
   Node.State idle_negative_used = StateIdle \<and> Node.TotalCores idle_negative_used = 0 \<and>
   IsAvailable idle_negative_used"
proof -
  have "Torque_parseNodeInfo ''n1 free 4:x 8000000:16000000 [batch]'' = Inr idle_negative_used"
    by code_simp
  then show ?thesis
    by (simp add: idle_negative_used_def Node_eval go_int_eval)
qed

section \<open>Cluster statistics\<close>

lemma foldl_calculateStats_step_TotalNodes:
  "TotalNodes (foldl calculateStats_step s ns) = TotalNodes s + of_nat (length ns)"
  by (induction ns arbitrary: s) (simp_all add: calculateStats_step_def Let_def)

lemma foldl_calculateStats_step_TotalCores:
  "ClusterStats.TotalCores (foldl calculateStats_step s ns) =
     ClusterStats.TotalCores s + sum_list (map Node.TotalCores ns)"
  by (induction ns arbitrary: s) (simp_all add: calculateStats_step_def Let_def)

lemma foldl_calculateStats_step_UsedCores:
  "ClusterStats.UsedCores (foldl calculateStats_step s ns) =
     ClusterStats.UsedCores s + sum_list (map Node.UsedCores ns)"
  by (induction ns arbitrary: s) (simp_all add: calculateStats_step_def Let_def)

lemma foldl_calculateStats_step_TotalMemoryGB:
  "TotalMemoryGB (foldl calculateStats_step s ns) =
     TotalMemoryGB s + sum_list (map GetTotalMemGB ns)"
  by (induction ns arbitrary: s) (simp_all add: calculateStats_step_def Let_def)

lemma foldl_calculateStats_step_UsedMemoryGB:
  "UsedMemoryGB (foldl calculateStats_step s ns) =
     UsedMemoryGB s + sum_list (map GetUsedMemGB ns)"
  by (induction ns arbitrary: s) (simp_all add: calculateStats_step_def Let_def)

lemma foldl_calculateStats_step_AvailNodes:
  "AvailNodes (foldl calculateStats_step s ns) =
     AvailNodes s + of_nat (length (filter IsAvailable ns))"
  by (induction ns arbitrary: s) (simp_all add: calculateStats_step_def Let_def)

text \<open>
  What \<^verbatim>\<open>calculateStats\<close> returns, field by field: the sums of the loop (in 64-bit
  arithmetic), and the two differences computed after it.
\<close>

lemma calculateStats_fields:
  "TotalNodes (calculateStats ns) = of_nat (length ns)"
  "AvailNodes (calculateStats ns) = of_nat (length (filter IsAvailable ns))"
  "ClusterStats.TotalCores (calculateStats ns) = sum_list (map Node.TotalCores ns)"
  "ClusterStats.UsedCores (calculateStats ns) = sum_list (map Node.UsedCores ns)"
  "TotalMemoryGB (calculateStats ns) = sum_list (map GetTotalMemGB ns)"
  "UsedMemoryGB (calculateStats ns) = sum_list (map GetUsedMemGB ns)"
  by (simp_all add: calculateStats_def Let_def ClusterStats_zero_def
      foldl_calculateStats_step_TotalNodes foldl_calculateStats_step_AvailNodes
      foldl_calculateStats_step_TotalCores foldl_calculateStats_step_UsedCores
      foldl_calculateStats_step_TotalMemoryGB foldl_calculateStats_step_UsedMemoryGB)

lemma calculateStats_AvailCores:
  "AvailCores (calculateStats ns) =
     sum_list (map Node.TotalCores ns) - sum_list (map Node.UsedCores ns)"
  by (simp add: calculateStats_def Let_def ClusterStats_zero_def
      foldl_calculateStats_step_TotalCores foldl_calculateStats_step_UsedCores)

lemma calculateStats_AvailMemoryGB:
  "AvailMemoryGB (calculateStats ns) =
     sum_list (map GetTotalMemGB ns) - sum_list (map GetUsedMemGB ns)"
  by (simp add: calculateStats_def Let_def ClusterStats_zero_def
      foldl_calculateStats_step_TotalMemoryGB foldl_calculateStats_step_UsedMemoryGB)

text \<open>The statistics do not depend on the order of the nodes.\<close>

lemma calculateStats_mset:
  assumes "mset ns = mset ms"
  shows "calculateStats ns = calculateStats ms"
proof -
  have s: "sum_list (map f ns) = sum_list (map f ms)" for f :: "Node \<Rightarrow> go_int"
    using assms by (metis mset_map sum_mset_sum_list)
  have l: "length ns = length ms"
    using assms by (rule mset_eq_length)
  have a: "length (filter IsAvailable ns) = length (filter IsAvailable ms)"
    using assms by (metis mset_filter mset_eq_length)
  show ?thesis
    by (rule ClusterStats.equality)
      (simp_all add: calculateStats_fields calculateStats_AvailCores
        calculateStats_AvailMemoryGB s l a)
qed

text \<open>
  C3. For every node list the statistics satisfy AvailCores = TotalCores - UsedCores and
  AvailMemoryGB = TotalMemoryGB - UsedMemoryGB: both are computed from the sums after
  the loop.
\<close>

theorem calculateStats_avail_is_total_minus_used:
  "AvailCores (calculateStats ns) =
     ClusterStats.TotalCores (calculateStats ns) -
     ClusterStats.UsedCores (calculateStats ns) \<and>
   AvailMemoryGB (calculateStats ns) =
     TotalMemoryGB (calculateStats ns) - UsedMemoryGB (calculateStats ns)"
  by (simp add: calculateStats_def Let_def)

lemma scenario_not_available: "\<not> IsAvailable scenario_a" "\<not> IsAvailable scenario_b"
  by (simp_all add: scenario_a_def scenario_b_def Node_eval go_int_eval)

text \<open>
  C4 (as amended). On the scenario's two nodes, memory 100/0 and 100/10 as stored (MB),
  the statistics are TotalNodes = 2, AvailNodes = 0, TotalCores = 20, UsedCores = 2 and
  AvailCores = 18: neither node has a whole GB of memory free, so neither is available.
\<close>

theorem calculateStats_scenario:
  "TotalNodes (calculateStats [scenario_a, scenario_b]) = 2 \<and>
   AvailNodes (calculateStats [scenario_a, scenario_b]) = 0 \<and>
   ClusterStats.TotalCores (calculateStats [scenario_a, scenario_b]) = 20 \<and>
   ClusterStats.UsedCores (calculateStats [scenario_a, scenario_b]) = 2 \<and>
   AvailCores (calculateStats [scenario_a, scenario_b]) = 18"
proof -
  have "AvailCores (calculateStats [scenario_a, scenario_b]) = 18"
    by (simp add: calculateStats_AvailCores
        scenario_a_def scenario_b_def)
  then show ?thesis
    by (simp add: calculateStats_fields scenario_not_available)
      (simp add: scenario_a_def scenario_b_def)
qed

text \<open>C4 as stated fails: the scenario's AvailNodes is 0, not 2.\<close>

theorem calculateStats_scenario_counterexample:
  "AvailNodes (calculateStats [scenario_a, scenario_b]) \<noteq> 2"
  by (simp add: calculateStats_fields scenario_not_available)

section \<open>The node ranking\<close>

lemma nodeLess_rankKey: "nodeLess a b \<longleftrightarrow> rankKey a < rankKey b"
  by (auto simp: nodeLess_def rankKey_def word_sless_alt)

lemma ties_rankKey: "ties a b \<longleftrightarrow> rankKey a = rankKey b"
  by (auto simp: ties_def nodeLess_rankKey)

lemma nodeLess_strict_weak_order:
  "\<not> nodeLess a a"
  "nodeLess a b \<Longrightarrow> nodeLess b c \<Longrightarrow> nodeLess a c"
  "ties a b \<Longrightarrow> ties b c \<Longrightarrow> ties a c"
  by (auto simp: ties_rankKey nodeLess_rankKey)

lemma ranked_sorted_keys: "ranked ns ys \<longleftrightarrow> mset ys = mset ns \<and> sorted (map rankKey ys)"
  by (simp add: ranked_def sort_Slice_result_def sorted_wrt_map nodeLess_rankKey not_less)

lemma ranked_exists: "ranked ns (sort_key rankKey ns)"
  by (simp add: ranked_sorted_keys)

lemma ranked_nth:
  assumes "ranked ns ys" and "i < j" and "j < length ys"
  shows "\<not> nodeLess (ys ! j) (ys ! i)"
  using assms by (simp add: ranked_def sort_Slice_result_def sorted_wrt_iff_nth_less)

lemma sint_powerScore:
  assumes "IsAvailable n"
    and "sint (GetAvailCores n) * 1000 + sint (GetAvailMemGB n) < 2 ^ 63"
  shows "sint (powerScore n) = sint (GetAvailCores n) * 1000 + sint (GetAvailMemGB n)"
proof -
  let ?c = "sint (GetAvailCores n)" and ?m = "sint (GetAvailMemGB n)"
  have pos: "0 < ?c" "0 < ?m"
    using assms(1) by (simp_all add: IsAvailable_def word_sless_alt)
  have prod: "signed_take_bit 63 (?c * 1000) = ?c * 1000"
    by (rule signed_take_bit_int_eq_self) (use pos assms(2) in simp_all)
  have total: "signed_take_bit 63 (?c * 1000 + ?m) = ?c * 1000 + ?m"
    by (rule signed_take_bit_int_eq_self) (use pos assms(2) in simp_all)
  show ?thesis
    by (simp add: powerScore_def sint_word_ariths prod total)
qed

lemma example_availability:
  "IsAvailable avail_5gb" "IsAvailable avail_50gb" "\<not> IsAvailable down_with_resources"
  "\<not> IsAvailable busy_node" "\<not> IsAvailable running_full" "\<not> IsAvailable idle_no_cores"
  "\<not> IsAvailable down_1" "\<not> IsAvailable down_2"
  by (simp_all add: avail_5gb_def avail_50gb_def down_with_resources_def busy_node_def
      running_full_def idle_no_cores_def down_1_def down_2_def Node_eval go_int_eval)

lemma example_scores:
  "GetAvailCores avail_5gb = 10" "GetAvailCores avail_50gb = 10"
  "GetAvailMemGB avail_5gb = 5" "GetAvailMemGB avail_50gb = 50"
  "powerScore avail_5gb = 10005" "powerScore avail_50gb = 10050"
  by (simp_all add: powerScore_def avail_5gb_def avail_50gb_def GetAvailCores_def
      GetAvailMemGB_def go_quo_def signed_divide_int_def)

lemma big_available: "IsAvailable big_a" "IsAvailable big_b"
  by (simp_all add: big_a_def big_b_def Node_eval go_int_eval)

lemma big_memory: "GetAvailMemGB big_a = 807" "GetAvailMemGB big_b = 808"
  by (simp_all add: big_a_def big_b_def GetAvailMemGB_def go_quo_def signed_divide_int_def)

lemma big_scores:
  "powerScore big_a = 9223372036854775807" "sint (powerScore big_b) = - 9223372036854775808"
  by (simp_all add: powerScore_def big_memory) (simp_all add: big_a_def big_b_def GetAvailCores_def)

text \<open>
  C2 (as amended). In every ranking \<open>ys\<close> of a node list \<open>ns\<close>: every available node
  stands before every node that is not available, whatever the score of the latter; of
  two available nodes the earlier one has the greater or equal power score
  \<^verbatim>\<open>GetAvailCores()*1000 + GetAvailMemGB()\<close>, computed in 64-bit arithmetic as the
  comparator computes it; and of two available nodes with equal available cores the one
  with more available GB stands first, provided its score does not exceed the largest
  64-bit integer.
\<close>

theorem ranked_available_first_by_power:
  assumes "ranked ns ys" and "i < length ys" and "j < length ys"
  shows "(IsAvailable (ys ! i) \<and> \<not> IsAvailable (ys ! j) \<longrightarrow> i < j) \<and>
         (i < j \<and> IsAvailable (ys ! i) \<and> IsAvailable (ys ! j) \<longrightarrow>
            powerScore (ys ! j) \<le>s powerScore (ys ! i)) \<and>
         (IsAvailable (ys ! i) \<and> IsAvailable (ys ! j) \<and>
          GetAvailCores (ys ! i) = GetAvailCores (ys ! j) \<and>
          GetAvailMemGB (ys ! j) <s GetAvailMemGB (ys ! i) \<and>
          sint (GetAvailCores (ys ! i)) * 1000 + sint (GetAvailMemGB (ys ! i)) < 2 ^ 63
            \<longrightarrow> i < j)"
proof (intro conjI impI)
  assume a: "IsAvailable (ys ! i) \<and> \<not> IsAvailable (ys ! j)"
  show "i < j"
  proof (rule ccontr)
    assume "\<not> i < j"
    with a have "j < i" by (cases "i = j") auto
    from ranked_nth [OF assms(1) this assms(2)] a show False
      by (simp add: nodeLess_def)
  qed
next
  assume a: "i < j \<and> IsAvailable (ys ! i) \<and> IsAvailable (ys ! j)"
  with ranked_nth [OF assms(1) _ assms(3), of i]
  show "powerScore (ys ! j) \<le>s powerScore (ys ! i)"
    by (simp add: nodeLess_def word_sless_alt word_sle_eq)
next
  assume a: "IsAvailable (ys ! i) \<and> IsAvailable (ys ! j) \<and>
          GetAvailCores (ys ! i) = GetAvailCores (ys ! j) \<and>
          GetAvailMemGB (ys ! j) <s GetAvailMemGB (ys ! i) \<and>
          sint (GetAvailCores (ys ! i)) * 1000 + sint (GetAvailMemGB (ys ! i)) < 2 ^ 63"
  then have av: "IsAvailable (ys ! i)" "IsAvailable (ys ! j)"
    and cores: "GetAvailCores (ys ! j) = GetAvailCores (ys ! i)"
    by simp_all
  from a have bound:
    "sint (GetAvailCores (ys ! i)) * 1000 + sint (GetAvailMemGB (ys ! i)) < 2 ^ 63"
    by (elim conjE)
  from a have mem: "sint (GetAvailMemGB (ys ! j)) < sint (GetAvailMemGB (ys ! i))"
    by (simp add: word_sless_alt)
  have si: "sint (powerScore (ys ! i)) =
      sint (GetAvailCores (ys ! i)) * 1000 + sint (GetAvailMemGB (ys ! i))"
    using av(1) bound by (rule sint_powerScore)
  have "sint (GetAvailCores (ys ! j)) * 1000 + sint (GetAvailMemGB (ys ! j)) < 2 ^ 63"
    using bound mem by (simp add: cores)
  with av(2) have sj: "sint (powerScore (ys ! j)) =
      sint (GetAvailCores (ys ! j)) * 1000 + sint (GetAvailMemGB (ys ! j))"
    by (rule sint_powerScore)
  have lt: "nodeLess (ys ! i) (ys ! j)"
    using av mem by (simp add: nodeLess_def word_sless_alt si sj cores)
  show "i < j"
  proof (rule ccontr)
    assume "\<not> i < j"
    with mem have "j < i" by (cases "i = j") auto
    from ranked_nth [OF assms(1) this assms(2)] lt show False
      by simp
  qed
qed

theorem ranked_available_first_by_power_witness:
  "ranked [down_with_resources, avail_5gb, avail_50gb]
      [avail_50gb, avail_5gb, down_with_resources] \<and>
   IsAvailable avail_5gb \<and> \<not> IsAvailable down_with_resources \<and>
   IsAvailable avail_50gb \<and> powerScore avail_5gb \<le>s powerScore avail_50gb \<and>
   GetAvailCores avail_50gb = GetAvailCores avail_5gb \<and>
   GetAvailMemGB avail_5gb <s GetAvailMemGB avail_50gb \<and>
   sint (GetAvailCores avail_50gb) * 1000 + sint (GetAvailMemGB avail_50gb) < 2 ^ 63"
  using
    ranked_available_first_by_power [of "[down_with_resources, avail_5gb, avail_50gb]"
      "[avail_50gb, avail_5gb, down_with_resources]" 1 2]
    ranked_available_first_by_power [of "[down_with_resources, avail_5gb, avail_50gb]"
      "[avail_50gb, avail_5gb, down_with_resources]" 0 1]
  by (simp add: ranked_def sort_Slice_result_def nodeLess_def example_availability
      example_scores word_sless_alt word_sle_eq add_mset_commute)

text \<open>
  C2 as stated fails where the score overflows: both nodes are available and have equal
  available cores, \<open>big_b\<close> has more available memory, and the only ranking of the two
  puts \<open>big_a\<close> first, because the score of \<open>big_b\<close> wraps around to the smallest
  64-bit integer.
\<close>

theorem ranked_memory_tie_break_counterexample:
  "IsAvailable big_a \<and> IsAvailable big_b \<and> GetAvailCores big_a = GetAvailCores big_b \<and>
   GetAvailMemGB big_a <s GetAvailMemGB big_b \<and>
   ranked [big_b, big_a] [big_a, big_b] \<and> \<not> ranked [big_b, big_a] [big_b, big_a]"
  by (simp add: ranked_def sort_Slice_result_def nodeLess_def big_available big_scores
      big_memory word_sless_alt add_mset_commute)
    (simp add: big_a_def big_b_def GetAvailCores_def)

text \<open>
  The specification's example: of an available node \<open>a\<close> and an unavailable node
  \<open>b\<close>, listed as \<open>[b, a]\<close>, the ranking is \<open>[a, b]\<close>.
\<close>

lemma mset_pair_cases:
  assumes "mset ys = mset [b, a]"
  shows "ys = [a, b] \<or> ys = [b, a]"
proof -
  have "length ys = 2"
    using mset_eq_length [OF assms] by simp
  then obtain x y where ys: "ys = [x, y]"
    by (auto simp: length_Suc_conv numeral_2_eq_2)
  with assms show ?thesis
    by (auto simp: add_eq_conv_ex)
qed

lemma ranked_pair_available_first:
  assumes "IsAvailable a" and "\<not> IsAvailable b" and "ranked [b, a] ys"
  shows "ys = [a, b]"
proof -
  from assms(3) have "ys = [a, b] \<or> ys = [b, a]"
    by (intro mset_pair_cases) (simp add: ranked_def sort_Slice_result_def)
  moreover have "\<not> ranked [b, a] [b, a]"
    using assms(1,2) by (simp add: ranked_def sort_Slice_result_def nodeLess_def)
  ultimately show ?thesis
    using assms(3) by auto
qed

lemma stateOrder_index_table:
  "stateOrder_index StateRunning = 0" "stateOrder_index StateBusy = 1"
  "stateOrder_index StateDrained = 2" "stateOrder_index StateDown = 3"
  "stateOrder_index StateOffline = 4" "stateOrder_index StateIdle = 0"
  by (simp_all add: stateOrder_index_def stateOrder_def NodeState_defs)

lemma stateOrder_index_other:
  "s \<notin> {StateRunning, StateBusy, StateDrained, StateDown, StateOffline} \<Longrightarrow>
   stateOrder_index s = 0"
  by (simp add: stateOrder_index_def stateOrder_def)

lemma example_states:
  "Node.State idle_no_cores = StateIdle" "Node.State busy_node = StateBusy"
  "Node.State running_full = StateRunning" "Node.State down_1 = StateDown"
  "Node.State down_2 = StateDown"
  by (simp_all add: idle_no_cores_def busy_node_def running_full_def down_1_def down_2_def)

text \<open>
  C5 (as amended). Among nodes that are not available, every ranking orders by the state
  priority Running 0, Busy 1, Drained 2, Down 3, Offline 4, lowest first; a state that is
  not one of those five (Idle, for a node that is unavailable for lack of free resources)
  has priority 0, that of Running: such a node ties with the Running nodes and stands
  before the Busy, Drained, Down and Offline ones.
\<close>

theorem ranked_unavailable_by_state:
  assumes "ranked ns ys" and "i < j" and "j < length ys"
    and "\<not> IsAvailable (ys ! i)" and "\<not> IsAvailable (ys ! j)"
  shows "stateOrder_index (Node.State (ys ! i)) \<le>s stateOrder_index (Node.State (ys ! j)) \<and>
    stateOrder_index StateRunning = 0 \<and> stateOrder_index StateBusy = 1 \<and>
    stateOrder_index StateDrained = 2 \<and> stateOrder_index StateDown = 3 \<and>
    stateOrder_index StateOffline = 4 \<and>
    (\<forall>s. s \<notin> {StateRunning, StateBusy, StateDrained, StateDown, StateOffline} \<longrightarrow>
       stateOrder_index s = 0)"
  using ranked_nth [OF assms(1,2,3)] assms(4,5) stateOrder_index_other
  by (simp add: nodeLess_def word_sless_alt word_sle_eq stateOrder_index_table)

theorem ranked_unavailable_by_state_witness:
  "ranked [busy_node, down_1, running_full] [running_full, busy_node, down_1] \<and>
   \<not> IsAvailable running_full \<and> \<not> IsAvailable busy_node \<and> \<not> IsAvailable down_1 \<and>
   stateOrder_index (Node.State running_full) \<le>s stateOrder_index (Node.State busy_node) \<and>
   stateOrder_index (Node.State busy_node) \<le>s stateOrder_index (Node.State down_1)"
  using
    ranked_unavailable_by_state [of "[busy_node, down_1, running_full]"
      "[running_full, busy_node, down_1]" 0 1]
    ranked_unavailable_by_state [of "[busy_node, down_1, running_full]"
      "[running_full, busy_node, down_1]" 1 2]
  by (simp add: ranked_def sort_Slice_result_def nodeLess_def example_availability
      example_states stateOrder_index_table word_sless_alt word_sle_eq add_mset_commute)

text \<open>
  C5 as stated fails: an Idle node that is not available does not sort after the listed
  states. The only ranking of a Busy node and such an Idle node puts the Idle node first.
\<close>

theorem ranked_idle_unavailable_counterexample:
  "Node.State idle_no_cores = StateIdle \<and> \<not> IsAvailable idle_no_cores \<and>
   Node.State busy_node = StateBusy \<and> \<not> IsAvailable busy_node \<and>
   ranked [busy_node, idle_no_cores] [idle_no_cores, busy_node] \<and>
   \<not> ranked [busy_node, idle_no_cores] [busy_node, idle_no_cores]"
  by (simp add: ranked_def sort_Slice_result_def nodeLess_def example_availability
      example_states stateOrder_index_table word_sless_alt add_mset_commute)

subsection \<open>The sort on a slice that is in order\<close>

text \<open>
  On a slice in which no element is less than an earlier one, \<^verbatim>\<open>sort.Slice\<close> makes
  no exchange, for every comparator: up to twelve elements are insertion-sorted, and
  \<^verbatim>\<open>data.Less(j, j-1)\<close> is false throughout; for more, \<^verbatim>\<open>choosePivot_func\<close> counts
  no swap and reports an increasing slice, and \<^verbatim>\<open>partialInsertionSort_func\<close> finds
  every neighbour in order and returns true.
\<close>

lemma Less_in_order:
  assumes "sorted_wrt (\<lambda>x y. \<not> lt y x) xs" and "0 \<le> i" and "i < j" and "j < int (length xs)"
  shows "Less lt xs j i = Inr False"
proof -
  have "nat i < nat j" "nat j < length xs"
    using assms(2-4) by auto
  then have "\<not> lt (xs ! nat j) (xs ! nat i)"
    using assms(1) by (simp add: sorted_wrt_iff_nth_less)
  then show ?thesis
    using assms(2-4) by (simp add: Less_def)
qed

lemma insertionSort_inner_in_order:
  assumes "sorted_wrt (\<lambda>x y. \<not> lt y x) xs" and "0 \<le> a" and "j < int (length xs)"
  shows "insertionSort_inner lt xs a j = Inr xs"
  using assms by (subst insertionSort_inner.simps) (simp add: Less_in_order)

lemma insertionSort_outer_in_order:
  assumes "sorted_wrt (\<lambda>x y. \<not> lt y x) xs" and "0 \<le> a" and "b \<le> int (length xs)"
  shows "insertionSort_outer lt xs a b i = Inr xs"
  using assms
proof (induction lt xs a b i rule: insertionSort_outer.induct)
  case (1 lt data a b i)
  show ?case
  proof (cases "i < b")
    case True
    then have inner: "insertionSort_inner lt data a i = Inr data"
      using "1.prems" by (intro insertionSort_inner_in_order) auto
    have "insertionSort_outer lt data a b (i + 1) = Inr data"
      using True inner "1.prems" by (rule "1.IH")
    with True inner show ?thesis
      by (subst insertionSort_outer.simps) simp
  next
    case False
    then show ?thesis
      by (subst insertionSort_outer.simps) simp
  qed
qed

lemma order2_func_in_order:
  assumes "sorted_wrt (\<lambda>x y. \<not> lt y x) xs" and "0 \<le> p" and "p < q" and "q < int (length xs)"
  shows "order2_func lt xs p q swaps = Inr (p, q, swaps)"
  using assms by (simp add: order2_func_def Less_in_order)

lemma median_func_in_order:
  assumes "sorted_wrt (\<lambda>x y. \<not> lt y x) xs" and "0 \<le> p" and "p < q" and "q < r"
    and "r < int (length xs)"
  shows "median_func lt xs p q r swaps = Inr (q, swaps)"
  using assms by (simp add: median_func_def order2_func_in_order)

lemma choosePivot_func_in_order:
  assumes "sorted_wrt (\<lambda>x y. \<not> lt y x) xs" and "12 < int (length xs)"
  shows "choosePivot_func lt xs 0 (int (length xs)) =
           Inr (int (length xs) sdiv 4 * 2, increasingHint)"
proof -
  let ?l = "int (length xs)" and ?q = "int (length xs) sdiv 4"
  have q: "?q = ?l div 4"
    using assms(2) by (auto simp: signed_divide_int_def)
  have b: "3 \<le> ?q" "4 * ?q \<le> ?l"
    using assms(2) unfolding q by auto
  have m: "median_func lt xs ?q (?q * 2) (?q * 3) 0 = Inr (?q * 2, 0)"
    using assms(1) b by (intro median_func_in_order) auto
  have a: "medianAdjacent_func lt xs ?q s = Inr (?q, s)"
    "medianAdjacent_func lt xs (?q * 2) s = Inr (?q * 2, s)"
    "medianAdjacent_func lt xs (?q * 3) s = Inr (?q * 3, s)"
    if "50 \<le> ?l" for s
    unfolding medianAdjacent_func_def
    using assms(1) b that by (intro median_func_in_order; auto)+
  show ?thesis
    using assms(2) by (simp add: choosePivot_func_def Let_def m a)
qed

lemma partialInsertionSort_scan_in_order:
  assumes "sorted_wrt (\<lambda>x y. \<not> lt y x) xs" and "1 \<le> i" and "i \<le> b" and "b \<le> int (length xs)"
  shows "partialInsertionSort_scan lt xs b i = Inr b"
  using assms
proof (induction lt xs b i rule: partialInsertionSort_scan.induct)
  case (1 lt data b i)
  show ?case
  proof (cases "i < b")
    case True
    then have l: "Less lt data i (i - 1) = Inr False"
      using "1.prems" by (intro Less_in_order) auto
    have "partialInsertionSort_scan lt data b (i + 1) = Inr b"
      using True l "1.prems" by (intro "1.IH") auto
    with True l show ?thesis
      by (subst partialInsertionSort_scan.simps) simp
  next
    case False
    with "1.prems" show ?thesis
      by (subst partialInsertionSort_scan.simps) simp
  qed
qed

lemma partialInsertionSort_func_in_order:
  assumes "sorted_wrt (\<lambda>x y. \<not> lt y x) xs" and "0 \<le> a" and "a < b" and "b \<le> int (length xs)"
  shows "partialInsertionSort_func lt xs a b = Inr (xs, True)"
proof -
  have "partialInsertionSort_scan lt xs b (a + 1) = Inr b"
    using assms by (intro partialInsertionSort_scan_in_order) auto
  then show ?thesis
    unfolding partialInsertionSort_func_def
    by (subst partialInsertionSort_loop.simps) simp
qed

lemma pdqsort_func_in_order:
  assumes "sorted_wrt (\<lambda>x y. \<not> lt y x) xs" and "limit \<noteq> 0"
  shows "pdqsort_func lt xs 0 (int (length xs)) limit True True = Inr xs"
proof (cases "int (length xs) \<le> 12")
  case True
  then show ?thesis
    using assms(1)
    by (subst pdqsort_func.simps)
       (simp add: insertionSort_func_def insertionSort_outer_in_order)
next
  case False
  then have "partialInsertionSort_func lt xs 0 (int (length xs)) = Inr (xs, True)"
    using assms(1) by (intro partialInsertionSort_func_in_order) auto
  with False assms show ?thesis
    by (subst pdqsort_func.simps) (simp add: choosePivot_func_in_order)
qed

lemma bits_Len_pos: "0 < x \<Longrightarrow> 0 < bits_Len x"
proof (induction x rule: bits_Len.induct)
  case (1 x)
  have "0 \<le> bits_Len (x div 2)"
  proof (cases "x div 2 = 0")
    case True
    then show ?thesis by (subst bits_Len.simps) simp
  next
    case False
    with 1 show ?thesis by simp
  qed
  with "1.prems" show ?case
    by (subst bits_Len.simps) simp
qed

lemma Slice_in_order:
  assumes "sorted_wrt (\<lambda>x y. \<not> lt y x) xs"
  shows "Slice lt xs = Inr xs"
proof (cases "xs = []")
  case True
  then show ?thesis
    unfolding Slice_def Let_def
    by (subst pdqsort_func.simps)
       (simp add: insertionSort_func_def, subst insertionSort_outer.simps, simp)
next
  case False
  then have "bits_Len (length xs) \<noteq> 0"
    using bits_Len_pos [of "length xs"] by simp
  with assms show ?thesis
    unfolding Slice_def Let_def by (intro pdqsort_func_in_order)
qed

subsection \<open>Ranking twice, and ties\<close>

lemma ranked_in_order: "ranked ns ys \<Longrightarrow> sorted_wrt (\<lambda>x y. \<not> nodeLess y x) ys"
  by (simp add: ranked_def sort_Slice_result_def)

text \<open>
  C6 (as amended), the half that holds. Ranking is idempotent: a list \<open>ys\<close> that is a
  ranking of a node list \<open>ns\<close> (the nodes of \<open>ns\<close>, no node less than an earlier one
  under the comparator of \<^verbatim>\<open>fetchData\<close>) is returned by \<^verbatim>\<open>sort.Slice\<close> exactly as it
  is, node by node in the same order, without a panic and without leaving the modelled
  part of the library.
\<close>

theorem ranked_again:
  assumes "ranked ns ys"
  shows "Slice nodeLess ys = Inr ys"
  using assms by (intro Slice_in_order ranked_in_order)

lemma down_n_nodeLess:
  "\<not> nodeLess (down_n i) (down_n j)" "\<not> nodeLess (down_n i) busy_node"
  by (simp_all add: nodeLess_def down_n_def busy_node_def Node_eval go_int_eval
      stateOrder_index_def stateOrder_def)

lemma quicksort_order_ranked: "ranked adapter_order quicksort_order"
proof -
  have "mset quicksort_order = mset adapter_order"
    by (simp add: quicksort_order_def adapter_order_def add_mset_commute)
  moreover have "sorted_wrt (\<lambda>a b. \<not> nodeLess b a) quicksort_order"
    by (simp add: quicksort_order_def down_n_nodeLess)
  ultimately show ?thesis
    by (simp add: ranked_def sort_Slice_result_def)
qed

theorem ranked_again_witness:
  "ranked adapter_order quicksort_order \<and>
   Slice nodeLess quicksort_order = Inr quicksort_order \<and>
   ranked [down_1, avail_5gb, down_2] [avail_5gb, down_2, down_1] \<and>
   Slice nodeLess [avail_5gb, down_2, down_1] = Inr [avail_5gb, down_2, down_1]"
  using ranked_again [of adapter_order quicksort_order]
    ranked_again [of "[down_1, avail_5gb, down_2]" "[avail_5gb, down_2, down_1]"]
  by (simp add: quicksort_order_ranked)
    (simp add: ranked_def sort_Slice_result_def nodeLess_def example_availability
      example_states stateOrder_index_table word_sless_alt add_mset_commute)

text \<open>
  C6 as stated fails: the ranking is not a stable sort. In \<open>adapter_order\<close> twelve Down
  nodes, which tie under every rule, are followed by a Busy node, which ranks before them
  all. \<^verbatim>\<open>sort.Slice\<close> returns \<open>quicksort_order\<close>, in which the Down nodes have changed
  their relative order: \<open>d06\<close> now stands before \<open>d00\<close>. Finding the thirteen nodes out
  of order, the sort partitions them around the seventh, which it first exchanges with
  the first; it then exchanges the second with the Busy node, and the Busy node with the
  pivot.
\<close>

theorem ranked_not_stable_counterexample:
  "Slice nodeLess adapter_order = Inr quicksort_order \<and>
   ranked adapter_order quicksort_order \<and>
   ties (down_n 0) (down_n 6) \<and> down_n 0 \<noteq> down_n 6 \<and>
   adapter_order ! 0 = down_n 0 \<and> adapter_order ! 6 = down_n 6 \<and>
   quicksort_order ! 1 = down_n 6 \<and> quicksort_order ! 6 = down_n 0"
proof -
  have "Slice nodeLess adapter_order = Inr quicksort_order"
    by code_simp
  moreover have "down_n 0 \<noteq> down_n 6"
    by (simp add: down_n_def)
  ultimately show ?thesis
    by (simp add: quicksort_order_ranked ties_def down_n_nodeLess)
      (simp add: adapter_order_def quicksort_order_def)
qed

section \<open>The refresh cycle\<close>

lemma fetchData_errorMsg:
  "fetchData srt sched p u = errorMsg e \<longleftrightarrow>
     GetNodes sched p = Inl e \<or> (\<exists>ns. GetNodes sched p = Inr ns \<and> GetJobs sched p = Inl e)"
  by (auto simp: fetchData_def Let_def split: sum.splits)

lemma fetchData_dataMsg:
  "fetchData srt sched p u = dataMsg ns js ujs st \<longleftrightarrow>
     (\<exists>ns0. GetNodes sched p = Inr ns0 \<and> ns = srt nodeLess ns0) \<and> GetJobs sched p = Inr js \<and>
     ujs = (case GetUserJobs sched u of Inl e \<Rightarrow> [] | Inr l \<Rightarrow> l) \<and> st = calculateStats ns"
  by (auto simp: fetchData_def Let_def split: sum.splits)

text \<open>
  The published nodes are a ranking of the adapter's list, and the published statistics
  are those of the published nodes, whenever the library sort keeps its promise.
\<close>

lemma fetchData_ranked:
  assumes "fetchData srt sched p u = dataMsg ns js ujs st" and "GetNodes sched p = Inr ns0"
    and "sort_Slice_result nodeLess ns0 (srt nodeLess ns0)"
  shows "ranked ns0 ns \<and> st = calculateStats ns"
  using assms by (auto simp: fetchData_dataMsg ranked_def)

text \<open>
  C7. In a refresh attempt whose node and job fetches succeed, a failure of the user-job
  fetch results in \<^verbatim>\<open>userJobs\<close> being the empty list and in no error (\<^verbatim>\<open>err\<close> is
  \<^verbatim>\<open>nil\<close> afterwards). A failure of the node fetch, or of the job fetch after a
  successful node fetch, sets \<^verbatim>\<open>err\<close> to that failure and leaves the published nodes,
  jobs, userJobs and stats as they were.
\<close>

theorem refresh_failures:
  "(GetNodes sched (currentPartition a) = Inr ns \<and>
    GetJobs sched (currentPartition a) = Inr js \<and>
    GetUserJobs sched (currentUser a) = Inl e \<longrightarrow>
      userJobs (refresh srt sched now a) = [] \<and> err (refresh srt sched now a) = None) \<and>
   (GetNodes sched (currentPartition a) = Inl e \<or>
    GetNodes sched (currentPartition a) = Inr ns \<and>
    GetJobs sched (currentPartition a) = Inl e \<longrightarrow>
      err (refresh srt sched now a) = Some e \<and>
      nodes (refresh srt sched now a) = nodes a \<and> jobs (refresh srt sched now a) = jobs a \<and>
      userJobs (refresh srt sched now a) = userJobs a \<and>
      stats (refresh srt sched now a) = stats a)"
  by (auto simp: refresh_def fetchData_def Let_def)

theorem refresh_failures_witness:
  "GetNodes sched_user_jobs_fail (currentPartition app_0) = Inr [avail_5gb] \<and>
   GetJobs sched_user_jobs_fail (currentPartition app_0) = Inr [job_1] \<and>
   GetUserJobs sched_user_jobs_fail (currentUser app_0) = Inl (ExecError ''exit status 1'') \<and>
   userJobs app_0 = [job_1] \<and>
   userJobs (refresh (\<lambda>lt. sort_key rankKey) sched_user_jobs_fail 2 app_0) = [] \<and>
   err (refresh (\<lambda>lt. sort_key rankKey) sched_user_jobs_fail 2 app_0) = None \<and>
   GetNodes sched_nodes_fail (currentPartition app_0) =
     Inl (Message ''no nodes found in partition: batch'') \<and>
   err (refresh (\<lambda>lt. sort_key rankKey) sched_nodes_fail 2 app_0) =
     Some (Message ''no nodes found in partition: batch'') \<and>
   nodes (refresh (\<lambda>lt. sort_key rankKey) sched_nodes_fail 2 app_0) = nodes app_0 \<and>
   GetJobs sched_jobs_fail (currentPartition app_0) = Inl (ExecError ''exit status 1'') \<and>
   err (refresh (\<lambda>lt. sort_key rankKey) sched_jobs_fail 2 app_0) =
     Some (ExecError ''exit status 1'') \<and>
   userJobs (refresh (\<lambda>lt. sort_key rankKey) sched_jobs_fail 2 app_0) = userJobs app_0"
  using
    refresh_failures [of sched_user_jobs_fail app_0 "[avail_5gb]" "[job_1]"
      "ExecError ''exit status 1''" "\<lambda>lt. sort_key rankKey" 2]
    refresh_failures [of sched_nodes_fail app_0 "[]" "[]"
      "Message ''no nodes found in partition: batch''" "\<lambda>lt. sort_key rankKey" 2]
    refresh_failures [of sched_jobs_fail app_0 "[avail_5gb]" "[]"
      "ExecError ''exit status 1''" "\<lambda>lt. sort_key rankKey" 2]
  by (simp add: sched_user_jobs_fail_def sched_nodes_fail_def sched_jobs_fail_def app_0_def)

lemma TorqueScheduler_GetUserJobs_Inr: "TorqueScheduler_GetUserJobs (Inr ls) user = Inr []"
  by (induction ls) (simp_all add: TorqueScheduler_GetUserJobs_def)

lemma TorqueScheduler_GetUserJobs_cases:
  "TorqueScheduler_GetUserJobs qstat user = Inr [] \<or>
   (\<exists>e. TorqueScheduler_GetUserJobs qstat user = Inl e)"
  by (cases qstat) (simp_all add: TorqueScheduler_GetUserJobs_Inr,
      simp add: TorqueScheduler_GetUserJobs_def)

lemma userHasJobsOnNode_Nil: "\<not> userHasJobsOnNode [] nodeID"
  by (simp add: userHasJobsOnNode_def)

text \<open>
  C10. \<^verbatim>\<open>TorqueScheduler.GetUserJobs\<close> returns the empty job list whenever
  \<^verbatim>\<open>qstat\<close> succeeds, whatever it printed. So with a backend whose \<^verbatim>\<open>GetUserJobs\<close> is
  Torque's, every refresh that publishes a snapshot publishes an empty \<^verbatim>\<open>userJobs\<close>:
  the jobs summary counts 0 of the user's jobs, \<^verbatim>\<open>userHasJobsOnNode\<close> is false for
  every node, and no row of the table is starred.
\<close>

theorem Torque_user_jobs_empty:
  "TorqueScheduler_GetUserJobs (Inr ls) user = Inr [] \<and>
   (GetUserJobs sched = TorqueScheduler_GetUserJobs qstat \<and>
    fetchData srt sched (currentPartition a) (currentUser a) = dataMsg ns js ujs st \<longrightarrow>
      ujs = [] \<and> userJobs (refresh srt sched now a) = [] \<and>
      snd (renderJobsSummary (refresh srt sched now a)) = 0 \<and>
      (\<forall>nodeID. \<not> userHasJobsOnNode (userJobs (refresh srt sched now a)) nodeID) \<and>
      list_all (\<lambda>r. \<not> snd r) (rows (refresh srt sched now a)))"
proof (intro conjI impI)
  show "TorqueScheduler_GetUserJobs (Inr ls) user = Inr []"
    by (rule TorqueScheduler_GetUserJobs_Inr)
next
  assume h: "GetUserJobs sched = TorqueScheduler_GetUserJobs qstat \<and>
    fetchData srt sched (currentPartition a) (currentUser a) = dataMsg ns js ujs st"
  then have u: "ujs = []"
    using TorqueScheduler_GetUserJobs_cases [of qstat "currentUser a"]
    by (auto simp: fetchData_dataMsg)
  with h have r: "refresh srt sched now a =
      a\<lparr>nodes := ns, jobs := js, userJobs := [], stats := st, lastUpdate := now,
        err := None, rows := updateTable ns []\<rparr>"
    by (simp add: refresh_def)
  show "ujs = []"
    by (rule u)
  show "userJobs (refresh srt sched now a) = []"
    by (simp add: r)
  show "snd (renderJobsSummary (refresh srt sched now a)) = 0"
    by (simp add: r renderJobsSummary_def)
  show "\<forall>nodeID. \<not> userHasJobsOnNode (userJobs (refresh srt sched now a)) nodeID"
    by (simp add: r userHasJobsOnNode_Nil)
  show "list_all (\<lambda>r. \<not> snd r) (rows (refresh srt sched now a))"
    by (simp add: r updateTable_def userHasJobsOnNode_Nil list_all_iff)
qed

lemma mdiag_lines_nodes:
  "TorqueScheduler_GetNodes (Inr mdiag_lines) ''batch'' = Inr [torque_n1, torque_n3]"
  by code_simp

lemma torque_rank_order: "rankKey torque_n1 \<le> rankKey torque_n3"
proof -
  have "IsAvailable torque_n1" "\<not> IsAvailable torque_n3"
    by (simp_all add: torque_n1_def torque_n3_def Node_eval go_int_eval)
  then show ?thesis
    by (simp add: rankKey_def)
qed

theorem Torque_user_jobs_empty_witness:
  "GetUserJobs sched_torque = TorqueScheduler_GetUserJobs (Inr qstat_lines) \<and>
   fetchData (\<lambda>lt. sort_key rankKey) sched_torque (currentPartition app_0)
       (currentUser app_0) =
     dataMsg [torque_n1, torque_n3] [job_1] [] (calculateStats [torque_n1, torque_n3]) \<and>
   userJobs app_0 = [job_1] \<and>
   userJobs (refresh (\<lambda>lt. sort_key rankKey) sched_torque 2 app_0) = [] \<and>
   snd (renderJobsSummary (refresh (\<lambda>lt. sort_key rankKey) sched_torque 2 app_0)) = 0"
  using Torque_user_jobs_empty [of "[]" "''alice''" sched_torque "Inr qstat_lines"
      "\<lambda>lt. sort_key rankKey" app_0 "[torque_n1, torque_n3]" "[job_1]" "[]"
      "calculateStats [torque_n1, torque_n3]" 2]
  by (simp add: sched_torque_def app_0_def refresh_def fetchData_def Let_def
      mdiag_lines_nodes torque_rank_order TorqueScheduler_GetUserJobs_def qstat_lines_def
      renderJobsSummary_def)

section \<open>Node records of the scheduler adapters\<close>

lemma Torque_GetNodes_step_parsed:
  "Torque_GetNodes_step part ns line = ns @ Torque_parsed part line"
  by (simp add: Torque_GetNodes_step_def Torque_parsed_def split: sum.splits)

lemma foldl_Torque_GetNodes_step:
  "foldl (Torque_GetNodes_step part) ns ls = ns @ concat (map (Torque_parsed part) ls)"
  by (induction ls arbitrary: ns) (simp_all add: Torque_GetNodes_step_parsed)

lemma Torque_parsed_malformed:
  "Torque_parseNodeInfo bad = Inl e \<Longrightarrow> Torque_parsed part bad = []"
  by (simp add: Torque_parsed_def)

lemma Torque_parsed_well_formed:
  "Torque_selected part l \<Longrightarrow> \<not> isl (Torque_parseNodeInfo l) \<Longrightarrow>
   Torque_parsed part l = [projr (Torque_parseNodeInfo l)]"
  by (cases "Torque_parseNodeInfo l") (simp_all add: Torque_parsed_def)

lemma concat_Torque_parsed_well_formed:
  "\<forall>l\<in>set ls. Torque_selected part l \<and> \<not> isl (Torque_parseNodeInfo l) \<Longrightarrow>
   concat (map (Torque_parsed part) ls) = map (\<lambda>l. projr (Torque_parseNodeInfo l)) ls"
  by (induction ls) (simp_all add: Torque_parsed_well_formed)

lemma TorqueScheduler_GetNodes_parsed:
  "TorqueScheduler_GetNodes (Inr ls) part =
     (if concat (map (Torque_parsed part) ls) = []
      then Inl (Message (''no nodes found in partition: '' @ part))
      else Inr (concat (map (Torque_parsed part) ls)))"
  by (simp add: TorqueScheduler_GetNodes_def foldl_Torque_GetNodes_step Let_def
      del: foldl_append foldl_Cons)

lemma Torque_GetNodes_skip:
  assumes "Torque_parseNodeInfo bad = Inl e"
  shows "TorqueScheduler_GetNodes (Inr (pre @ bad # post)) part =
         TorqueScheduler_GetNodes (Inr (pre @ post)) part"
proof -
  have "concat (map (Torque_parsed part) (pre @ bad # post)) =
        concat (map (Torque_parsed part) (pre @ post))"
    by (simp add: Torque_parsed_malformed [OF assms])
  then show ?thesis
    by (simp only: TorqueScheduler_GetNodes_parsed)
qed

lemma Torque_GetNodes_well_formed:
  assumes "\<forall>l\<in>set ls. Torque_selected part l \<and> \<not> isl (Torque_parseNodeInfo l)"
    and "ls \<noteq> []"
  shows "TorqueScheduler_GetNodes (Inr ls) part =
         Inr (map (\<lambda>l. projr (Torque_parseNodeInfo l)) ls)"
proof -
  have "concat (map (Torque_parsed part) ls) = map (\<lambda>l. projr (Torque_parseNodeInfo l)) ls"
    using assms(1) by (rule concat_Torque_parsed_well_formed)
  with assms(2) show ?thesis
    by (simp add: TorqueScheduler_GetNodes_parsed)
qed

lemma Torque_parseNodeInfo_malformed_iff:
  "isl (Torque_parseNodeInfo line) \<longleftrightarrow> length (Split (cleanSpaces 30 line) (CHR '' '')) < 4"
  by (simp add: Torque_parseNodeInfo_def Let_def)

lemma Torque_GetNodes_four_fields:
  assumes "ls \<noteq> []"
    and "\<forall>l\<in>set ls. Torque_selected part l \<and>
           4 \<le> length (Split (cleanSpaces 30 l) (CHR '' ''))"
  shows "TorqueScheduler_GetNodes (Inr ls) part =
         Inr (map (\<lambda>l. projr (Torque_parseNodeInfo l)) ls)"
proof -
  have "\<forall>l\<in>set ls. Torque_selected part l \<and> \<not> isl (Torque_parseNodeInfo l)"
    using assms(2) by (simp add: Torque_parseNodeInfo_malformed_iff not_less)
  then show ?thesis
    using assms(1) by (rule Torque_GetNodes_well_formed)
qed

lemma Slurm_parseNodeInfo_never_fails: "\<not> isl (Slurm_parseNodeInfo nodeInfo)"
  by (simp add: Slurm_parseNodeInfo_def)

lemma Slurm_field_not_a_pair:
  "length (Split tok (CHR ''='')) \<noteq> 2 \<Longrightarrow> Slurm_parseNodeInfo_field node tok = node"
  by (simp add: Slurm_parseNodeInfo_field_def Let_def)

lemma Slurm_field_not_a_number:
  assumes "Split tok (CHR ''='') = [key, v]"
    and "key \<in> {''CPUAlloc'', ''CPUTot'', ''AllocMem'', ''RealMemory''}"
    and "snd (Atoi v) \<noteq> None"
  shows "Slurm_parseNodeInfo_field node tok = node"
proof -
  obtain n e where at: "Atoi v = (n, Some e)"
    using assms(3) by (cases "Atoi v") auto
  from assms(2) consider "key = ''CPUAlloc''" | "key = ''CPUTot''" | "key = ''AllocMem''"
    | "key = ''RealMemory''"
    by blast
  then show ?thesis
    by cases (simp_all add: Slurm_parseNodeInfo_field_def assms(1) at)
qed

lemma Slurm_process_parsed:
  "Slurm_process part ns r =
     ns @ filter (\<lambda>n. nodeInPartition n part) [projr (Slurm_parseNodeInfo r)]"
  by (simp add: Slurm_process_def Slurm_parseNodeInfo_def)

lemma Slurm_GetNodes_loop_records:
  "(case Slurm_GetNodes_loop part ls ns nodeInfo of
      (ns', nodeInfo') \<Rightarrow> if nodeInfo' \<noteq> [] then Slurm_process part ns' nodeInfo' else ns') =
   ns @ filter (\<lambda>n. nodeInPartition n part)
          (map (\<lambda>r. projr (Slurm_parseNodeInfo r)) (Slurm_records nodeInfo ls))"
proof (induction ls arbitrary: ns nodeInfo)
  case Nil
  show ?case
    by (simp add: Slurm_process_parsed)
next
  case (Cons line rest)
  show ?case
  proof (cases "Contains line ''NodeName='' \<and> nodeInfo \<noteq> []")
    case True
    then show ?thesis
      using Cons.IH [of "Slurm_process part ns nodeInfo" "line @ '' ''"]
      by (simp add: Slurm_process_parsed)
  next
    case False
    then show ?thesis
      using Cons.IH [of ns "nodeInfo @ line @ '' ''"] by auto
  qed
qed

lemma SlurmScheduler_GetNodes_records:
  "SlurmScheduler_GetNodes (Inr ls) part =
     (let ns = filter (\<lambda>n. nodeInPartition n part)
                 (map (\<lambda>r. projr (Slurm_parseNodeInfo r)) (Slurm_records [] ls))
      in if ns = [] then Inl (Message (''no nodes found in partition: '' @ part))
         else Inr ns)"
proof -
  obtain ns nodeInfo where l: "Slurm_GetNodes_loop part ls [] [] = (ns, nodeInfo)"
    by (cases "Slurm_GetNodes_loop part ls [] []")
  have "(if nodeInfo \<noteq> [] then Slurm_process part ns nodeInfo else ns) =
      filter (\<lambda>n. nodeInPartition n part)
        (map (\<lambda>r. projr (Slurm_parseNodeInfo r)) (Slurm_records [] ls))"
    using Slurm_GetNodes_loop_records [of part ls "[]" "[]"] by (simp add: l)
  then show ?thesis
    by (simp add: SlurmScheduler_GetNodes_def l Let_def)
qed

text \<open>
  C8 (as amended). Torque: \<^verbatim>\<open>parseNodeInfo\<close> rejects a line exactly when it has fewer
  than four fields once runs of spaces are collapsed. A rejected line is skipped locally:
  \<^verbatim>\<open>GetNodes\<close> returns what it returns for the output without that line, so for N (at
  least one) accepted lines of the partition plus one rejected line it returns exactly
  the N nodes parsed from the accepted lines. A line of the partition with four or more
  fields is never skipped, whatever the fields hold: for such lines \<^verbatim>\<open>GetNodes\<close>
  returns one node per line. SLURM: no record is rejected as malformed.
  \<^verbatim>\<open>parseNodeInfo\<close> never fails; a token that is not a \<open>key=value\<close> pair leaves the
  node as it is, and so does a \<open>CPUAlloc\<close>, \<open>CPUTot\<close>, \<open>AllocMem\<close> or \<open>RealMemory\<close>
  token whose value \<^verbatim>\<open>Atoi\<close> rejects; and \<^verbatim>\<open>GetNodes\<close> returns, in order, the node
  parsed from every record whose parsed \<^verbatim>\<open>Partitions\<close> list names the partition
  (an error if there is none).
\<close>

theorem GetNodes_malformed_record:
  "(isl (Torque_parseNodeInfo bad) \<and> pre @ post \<noteq> [] \<and>
    (\<forall>l\<in>set (pre @ post). Torque_selected part l \<and> \<not> isl (Torque_parseNodeInfo l)) \<longrightarrow>
      TorqueScheduler_GetNodes (Inr (pre @ bad # post)) part =
        Inr (map (\<lambda>l. projr (Torque_parseNodeInfo l)) (pre @ post)) \<and>
      TorqueScheduler_GetNodes (Inr (pre @ bad # post)) part =
        TorqueScheduler_GetNodes (Inr (pre @ post)) part) \<and>
   (isl (Torque_parseNodeInfo bad) \<longrightarrow>
      TorqueScheduler_GetNodes (Inr (pre @ bad # post)) part =
        TorqueScheduler_GetNodes (Inr (pre @ post)) part) \<and>
   (isl (Torque_parseNodeInfo bad) \<longleftrightarrow>
      length (Split (cleanSpaces 30 bad) (CHR '' '')) < 4) \<and>
   (ls \<noteq> [] \<and>
    (\<forall>l\<in>set ls. Torque_selected part l \<and>
       4 \<le> length (Split (cleanSpaces 30 l) (CHR '' ''))) \<longrightarrow>
      TorqueScheduler_GetNodes (Inr ls) part =
        Inr (map (\<lambda>l. projr (Torque_parseNodeInfo l)) ls)) \<and>
   \<not> isl (Slurm_parseNodeInfo nodeInfo) \<and>
   (length (Split tok (CHR ''='')) \<noteq> 2 \<longrightarrow> Slurm_parseNodeInfo_field node tok = node) \<and>
   (Split tok' (CHR ''='') = [key, v] \<and>
    key \<in> {''CPUAlloc'', ''CPUTot'', ''AllocMem'', ''RealMemory''} \<and>
    snd (Atoi v) \<noteq> None \<longrightarrow>
      Slurm_parseNodeInfo_field node tok' = node) \<and>
   SlurmScheduler_GetNodes (Inr scontrol) part =
     (let ns = filter (\<lambda>n. nodeInPartition n part)
                 (map (\<lambda>r. projr (Slurm_parseNodeInfo r)) (Slurm_records [] scontrol))
      in if ns = [] then Inl (Message (''no nodes found in partition: '' @ part))
         else Inr ns)"
proof (intro conjI impI)
  assume h: "isl (Torque_parseNodeInfo bad) \<and> pre @ post \<noteq> [] \<and>
    (\<forall>l\<in>set (pre @ post). Torque_selected part l \<and> \<not> isl (Torque_parseNodeInfo l))"
  then obtain e where e: "Torque_parseNodeInfo bad = Inl e"
    by (cases "Torque_parseNodeInfo bad") auto
  show skip: "TorqueScheduler_GetNodes (Inr (pre @ bad # post)) part =
        TorqueScheduler_GetNodes (Inr (pre @ post)) part"
    using e by (rule Torque_GetNodes_skip)
  show "TorqueScheduler_GetNodes (Inr (pre @ bad # post)) part =
        Inr (map (\<lambda>l. projr (Torque_parseNodeInfo l)) (pre @ post))"
    unfolding skip using h by (intro Torque_GetNodes_well_formed) blast+
next
  assume "isl (Torque_parseNodeInfo bad)"
  then obtain e where "Torque_parseNodeInfo bad = Inl e"
    by (cases "Torque_parseNodeInfo bad") auto
  then show "TorqueScheduler_GetNodes (Inr (pre @ bad # post)) part =
        TorqueScheduler_GetNodes (Inr (pre @ post)) part"
    by (rule Torque_GetNodes_skip)
next
  show "isl (Torque_parseNodeInfo bad) \<longleftrightarrow>
      length (Split (cleanSpaces 30 bad) (CHR '' '')) < 4"
    by (rule Torque_parseNodeInfo_malformed_iff)
next
  assume "ls \<noteq> [] \<and>
    (\<forall>l\<in>set ls. Torque_selected part l \<and>
       4 \<le> length (Split (cleanSpaces 30 l) (CHR '' '')))"
  then show "TorqueScheduler_GetNodes (Inr ls) part =
        Inr (map (\<lambda>l. projr (Torque_parseNodeInfo l)) ls)"
    by (intro Torque_GetNodes_four_fields) blast+
next
  show "\<not> isl (Slurm_parseNodeInfo nodeInfo)"
    by (rule Slurm_parseNodeInfo_never_fails)
next
  assume "length (Split tok (CHR ''='')) \<noteq> 2"
  then show "Slurm_parseNodeInfo_field node tok = node"
    by (rule Slurm_field_not_a_pair)
next
  assume "Split tok' (CHR ''='') = [key, v] \<and>
    key \<in> {''CPUAlloc'', ''CPUTot'', ''AllocMem'', ''RealMemory''} \<and>
    snd (Atoi v) \<noteq> None"
  then show "Slurm_parseNodeInfo_field node tok' = node"
    by (intro Slurm_field_not_a_number [of tok' key v]) blast+
next
  show "SlurmScheduler_GetNodes (Inr scontrol) part =
     (let ns = filter (\<lambda>n. nodeInPartition n part)
                 (map (\<lambda>r. projr (Slurm_parseNodeInfo r)) (Slurm_records [] scontrol))
      in if ns = [] then Inl (Message (''no nodes found in partition: '' @ part))
         else Inr ns)"
    by (rule SlurmScheduler_GetNodes_records)
qed

lemma mdiag_lines_parsed:
  "Torque_selected ''batch'' mdiag_line_n1" "Torque_selected ''batch'' mdiag_line_n3"
  "Torque_selected ''batch'' mdiag_line_garbage"
  "Torque_parseNodeInfo mdiag_line_n1 = Inr torque_n1"
  "Torque_parseNodeInfo mdiag_line_bad = Inl (Message ''insufficient fields in node info'')"
  "Torque_parseNodeInfo mdiag_line_n3 = Inr torque_n3"
  "Torque_parseNodeInfo mdiag_line_garbage = Inr torque_n2_garbage"
  "length (Split (cleanSpaces 30 mdiag_line_n1) (CHR '' '')) = 5"
  "length (Split (cleanSpaces 30 mdiag_line_garbage) (CHR '' '')) = 5"
  "length (Split (cleanSpaces 30 mdiag_line_n3) (CHR '' '')) = 5"
  "length (Split (cleanSpaces 30 mdiag_line_bad) (CHR '' '')) = 2"
  by code_simp+

lemma scontrol_tokens:
  "Split ''CPUAlloc==2'' (CHR ''='') = [''CPUAlloc'', [], ''2'']"
  "Split ''CPUTot=sixteen'' (CHR ''='') = [''CPUTot'', ''sixteen'']"
  "Atoi ''sixteen'' = (0, Some ErrSyntax)"
  by code_simp+

lemma scontrol_records_parsed:
  "Slurm_records [] scontrol_records =
     [''NodeName=n1 CPUAlloc=0 CPUTot=16    RealMemory=64000 AllocMem=0    State=IDLE Partitions=batch '',
      ''NodeName=n2 CPUAlloc==2 CPUTot=sixteen    RealMemory= State=IDLE Partitions=batch '',
      ''NodeName=n3 State=IDLE Partitions=gpu_q '']"
  "SlurmScheduler_GetNodes (Inr scontrol_records) ''batch'' = Inr [slurm_n1, slurm_n2_malformed]"
  by code_simp+

theorem GetNodes_malformed_record_witness:
  "isl (Torque_parseNodeInfo mdiag_line_bad) \<and>
   length (Split (cleanSpaces 30 mdiag_line_bad) (CHR '' '')) = 2 \<and>
   Torque_selected ''batch'' mdiag_line_n1 \<and> \<not> isl (Torque_parseNodeInfo mdiag_line_n1) \<and>
   Torque_selected ''batch'' mdiag_line_n3 \<and> \<not> isl (Torque_parseNodeInfo mdiag_line_n3) \<and>
   TorqueScheduler_GetNodes (Inr ([mdiag_line_n1] @ mdiag_line_bad # [mdiag_line_n3]))
     ''batch'' = Inr [torque_n1, torque_n3] \<and>
   TorqueScheduler_GetNodes (Inr ([mdiag_line_n1] @ [mdiag_line_n3])) ''batch'' =
     Inr [torque_n1, torque_n3] \<and>
   Torque_selected ''batch'' mdiag_line_garbage \<and>
   length (Split (cleanSpaces 30 mdiag_line_garbage) (CHR '' '')) = 5 \<and>
   TorqueScheduler_GetNodes (Inr [mdiag_line_n1, mdiag_line_garbage, mdiag_line_n3])
     ''batch'' = Inr [torque_n1, torque_n2_garbage, torque_n3] \<and>
   length (Split ''CPUAlloc==2'' (CHR ''='')) = 3 \<and>
   Slurm_parseNodeInfo_field slurm_n1 ''CPUAlloc==2'' = slurm_n1 \<and>
   Split ''CPUTot=sixteen'' (CHR ''='') = [''CPUTot'', ''sixteen''] \<and>
   snd (Atoi ''sixteen'') = Some ErrSyntax \<and>
   Slurm_parseNodeInfo_field slurm_n1 ''CPUTot=sixteen'' = slurm_n1 \<and>
   length (Slurm_records [] scontrol_records) = 3 \<and>
   filter (\<lambda>n. nodeInPartition n ''batch'')
     (map (\<lambda>r. projr (Slurm_parseNodeInfo r)) (Slurm_records [] scontrol_records)) =
     [slurm_n1, slurm_n2_malformed]"
  using GetNodes_malformed_record [of mdiag_line_bad "[mdiag_line_n1]" "[mdiag_line_n3]"
      "''batch''" "[mdiag_line_n1, mdiag_line_garbage, mdiag_line_n3]" "[]"
      "''CPUAlloc==2''" slurm_n1 "''CPUTot=sixteen''" "''CPUTot''" "''sixteen''"
      scontrol_records]
  by (auto simp: mdiag_lines_parsed scontrol_tokens scontrol_records_parsed Let_def
      split: if_splits)

text \<open>
  C8 as stated fails, for both adapters. Torque: the line \<open>n2 ??? 4/8 lots-of-memory
  [batch]\<close> has five fields, none of which is a state, a core count or a memory size;
  with it between two well-formed lines \<^verbatim>\<open>GetNodes\<close> returns three nodes, the second
  a Busy node without cores or memory, and without it two. SLURM: the second of these two
  records is malformed (a doubled \<open>=\<close>, a core count that is no number, an empty memory
  value), and \<^verbatim>\<open>GetNodes\<close> returns two nodes, the second with zeros where nothing
  could be parsed; for the well-formed record alone it returns one. And where the claim
  has N = 0, a single rejected line, Torque's \<^verbatim>\<open>GetNodes\<close> returns an error, not an
  empty list.
\<close>

theorem GetNodes_malformed_counterexample:
  "TorqueScheduler_GetNodes (Inr [mdiag_line_n1, mdiag_line_garbage, mdiag_line_n3])
     ''batch'' = Inr [torque_n1, torque_n2_garbage, torque_n3] \<and>
   TorqueScheduler_GetNodes (Inr [mdiag_line_n1, mdiag_line_n3]) ''batch'' =
     Inr [torque_n1, torque_n3] \<and>
   SlurmScheduler_GetNodes (Inr scontrol_lines) ''batch'' =
     Inr [slurm_n1, slurm_n2_malformed] \<and>
   SlurmScheduler_GetNodes (Inr [hd scontrol_lines]) ''batch'' = Inr [slurm_n1] \<and>
   TorqueScheduler_GetNodes (Inr [mdiag_line_bad]) ''batch'' =
     Inl (Message ''no nodes found in partition: batch'')"
  by code_simp

section \<open>Requested memory of SLURM jobs\<close>

lemma ReplaceAll_single:
  "ReplaceAll s [c0] new = concat (map (\<lambda>c. if c = c0 then new else [c]) s)"
  unfolding ReplaceAll_def by (induction s) simp_all

lemma ReplaceAll_absent: "c0 \<notin> set s \<Longrightarrow> ReplaceAll s (c0 # rest) new = s"
  unfolding ReplaceAll_def by (induction s) auto

lemma ReplaceAll_single_append:
  "ReplaceAll (a @ b) [c0] new = ReplaceAll a [c0] new @ ReplaceAll b [c0] new"
  by (simp add: ReplaceAll_single)

lemma isDigit_not_letter:
  "isDigit c \<Longrightarrow> c \<noteq> CHR ''M'' \<and> c \<noteq> CHR ''n'' \<and> c \<noteq> CHR ''c'' \<and> c \<noteq> CHR ''G'' \<and>
     c \<noteq> CHR ''.'' \<and> c \<noteq> CHR ''-'' \<and> c \<noteq> CHR ''+''"
  by (auto simp: isDigit_def)

lemma digits_without_letters:
  assumes "list_all isDigit v"
  shows "CHR ''M'' \<notin> set v" "CHR ''n'' \<notin> set v" "CHR ''c'' \<notin> set v" "CHR ''G'' \<notin> set v"
  using assms isDigit_not_letter by (auto simp: list_all_iff)

lemma decimal_append: "decimal acc (a @ b) = decimal (decimal acc a) b"
  by (induction a arbitrary: acc) simp_all

lemma memStr_replaced_whole_G:
  assumes "list_all isDigit v" and "suffix \<in> {[], ''n'', ''c''}"
  shows "memStr_replaced (v @ ''G'' @ suffix) = v @ ''000''"
proof -
  note dl = digits_without_letters [OF assms(1)]
  have noM: "CHR ''M'' \<notin> set (v @ ''G'' @ suffix)"
    using dl(1) assms(2) by auto
  have n: "ReplaceAll (v @ ''G'' @ suffix) ''n'' [] =
      v @ ''G'' @ filter (\<lambda>c. c \<noteq> CHR ''n'') suffix"
  proof -
    have "ReplaceAll (''G'' @ suffix) ''n'' [] = ''G'' @ filter (\<lambda>c. c \<noteq> CHR ''n'') suffix"
      using assms(2) by (auto simp: ReplaceAll_def)
    then show ?thesis
      by (simp only: ReplaceAll_single_append [of v] ReplaceAll_absent [OF dl(2)])
  qed
  have c: "ReplaceAll (v @ ''G'' @ filter (\<lambda>c. c \<noteq> CHR ''n'') suffix) ''c'' [] = v @ ''G''"
  proof -
    have "ReplaceAll (''G'' @ filter (\<lambda>c. c \<noteq> CHR ''n'') suffix) ''c'' [] = ''G''"
      using assms(2) by (auto simp: ReplaceAll_def)
    then show ?thesis
      by (simp only: ReplaceAll_single_append [of v] ReplaceAll_absent [OF dl(3)])
  qed
  have g: "ReplaceAll (v @ ''G'') ''G'' ''000'' = v @ ''000''"
  proof -
    have "ReplaceAll ''G'' ''G'' ''000'' = ''000''"
      by (simp add: ReplaceAll_def)
    then show ?thesis
      by (simp only: ReplaceAll_single_append [of v] ReplaceAll_absent [OF dl(4)])
  qed
  show ?thesis
    by (simp only: memStr_replaced_def Let_def ReplaceAll_absent [OF noM] n c g)
qed

lemma ParseFloat_int_digits:
  assumes "list_all isDigit ds" and "ds \<noteq> []" and "length ds \<le> 15"
  shows "ParseFloat_int ds = FloatInt (word_of_int (decimal 0 ds))"
proof -
  have d: "\<forall>c\<in>set ds. c \<noteq> CHR ''.'' \<and> c \<noteq> CHR ''-'' \<and> c \<noteq> CHR ''+''"
    using assms(1) isDigit_not_letter by (auto simp: list_all_iff)
  then have hd: "hd ds \<noteq> CHR ''-''" "hd ds \<noteq> CHR ''+''"
    using assms(2) by (cases ds; simp)+
  have f: "filter (\<lambda>c. c \<noteq> CHR ''.'') ds = ds"
    using d by (simp add: filter_id_conv)
  have w: "dropWhile (\<lambda>c. c \<noteq> CHR ''.'') ds = []"
    using d by simp
  show ?thesis
    using assms by (simp add: ParseFloat_int_def isDecimalFloat_def Let_def hd f w)
qed

text \<open>
  For a whole number \<open>v\<close> of at most twelve digits the memory block does what C9 says:
  \<open>v\<close> followed by \<open>G\<close>, with or without a trailing \<open>n\<close> or \<open>c\<close>, yields \<open>v\<close> times
  1000.
\<close>

lemma parseReqMem_whole_G:
  assumes "list_all isDigit v" and "v \<noteq> []" and "length v \<le> 12"
    and "suffix \<in> {[], ''n'', ''c''}"
  shows "parseReqMem old (v @ ''G'' @ suffix) = Some (word_of_int (decimal 0 v * 1000))"
proof -
  have "ParseFloat_int (v @ ''000'') = FloatInt (word_of_int (decimal 0 (v @ ''000'')))"
    using assms(1,2,3) by (intro ParseFloat_int_digits) (simp_all add: isDigit_def)
  moreover have "decimal 0 (v @ ''000'') = decimal 0 v * 1000"
    by (simp add: decimal_append)
  ultimately have "ParseFloat_int (v @ ''000'') = FloatInt (word_of_int (decimal 0 v * 1000))"
    by simp
  then show ?thesis
    unfolding parseReqMem_def memStr_replaced_whole_G [OF assms(1,4)] by simp
qed

text \<open>
  C9, at the input where the code departs from it: for the memory field \<open>1.5G\<close> the
  replacements yield \<open>1.5000\<close>, \<^verbatim>\<open>ParseFloat\<close> reads 1.5, and the requested memory
  becomes 1 MB, where 1.5 times 1000 is 1500.
\<close>

theorem Slurm_parseJobInfo_decimal_G:
  "memStr_replaced ''1.5G'' = ''1.5000'' \<and>
   map_option (map_sum id Job.ReqMemMB) (Slurm_parseJobInfo sacct_fields) = Some (Inr 1)"
  by code_simp

end
